theory Spec2Isabelle
  imports Main
begin

section \<open>Python values read from the export document\<close>

text \<open>
  The converter works on the tree that \<^verbatim>\<open>json.load\<close> returns. A Python \<^verbatim>\<open>str\<close> is a
  sequence of Unicode code points, so it is a list of naturals here: \<^verbatim>\<open>strip\<close> and
  iteration over a string work on code points, not on bytes.

  A float is kept as its \<^verbatim>\<open>repr\<close> (for instance \<^verbatim>\<open>1.5\<close>, \<^verbatim>\<open>0.0\<close>, \<^verbatim>\<open>-0.0\<close>, \<^verbatim>\<open>nan\<close>): the
  program only tests a float for truth and prints it. A dict is the association list of
  its entries in insertion order; the parser has already made the keys distinct.
  \<^verbatim>\<open>None\<close> and the document's \<^verbatim>\<open>null\<close> are the same value.
\<close>

type_synonym pystr = "nat list"

abbreviation ascii :: "string \<Rightarrow> pystr" where
  "ascii s \<equiv> map of_char s"

datatype json =
    JNull
  | JBool bool
  | JInt int
  | JFloat pystr
  | JStr pystr
  | JArr "json list"
  | JObj "(pystr \<times> json) list"

datatype py_error = AttributeError | TypeError | KeyError | IndexError

type_synonym 'a res = "py_error + 'a"

definition bind_res :: "'a res \<Rightarrow> ('a \<Rightarrow> 'b res) \<Rightarrow> 'b res" where
  "bind_res r f = (case r of Inl e \<Rightarrow> Inl e | Inr v \<Rightarrow> f v)"

subsection \<open>Built-in operations the program applies to these values\<close>

text \<open>Truth value testing: \<^verbatim>\<open>if v:\<close>.\<close>

fun truthy :: "json \<Rightarrow> bool" where
  "truthy JNull = False"
| "truthy (JBool b) = b"
| "truthy (JInt i) = (i \<noteq> 0)"
| "truthy (JFloat r) = (r \<noteq> ascii ''0.0'' \<and> r \<noteq> ascii ''-0.0'')"
| "truthy (JStr s) = (s \<noteq> [])"
| "truthy (JArr xs) = (xs \<noteq> [])"
| "truthy (JObj kvs) = (kvs \<noteq> [])"

text \<open>\<^verbatim>\<open>a or b\<close>.\<close>

definition py_or :: "json \<Rightarrow> json \<Rightarrow> json" where
  "py_or a b = (if truthy a then a else b)"

text \<open>\<^verbatim>\<open>d.get(k, dflt)\<close>: only a dict has the method.\<close>

definition py_get :: "json \<Rightarrow> pystr \<Rightarrow> json \<Rightarrow> json res" where
  "py_get d k dflt =
     (case d of
        JObj kvs \<Rightarrow> Inr (case map_of kvs k of None \<Rightarrow> dflt | Some v \<Rightarrow> v)
      | _ \<Rightarrow> Inl AttributeError)"

text \<open>
  \<^verbatim>\<open>for x in v\<close>: a list gives its elements, a dict its keys, a string its characters
  as one-character strings; nothing else is iterable.
\<close>

fun py_iter :: "json \<Rightarrow> json list res" where
  "py_iter (JArr xs) = Inr xs"
| "py_iter (JObj kvs) = Inr (map (\<lambda>kv. JStr (fst kv)) kvs)"
| "py_iter (JStr s) = Inr (map (\<lambda>c. JStr [c]) s)"
| "py_iter v = Inl TypeError"

text \<open>\<^verbatim>\<open>len(v)\<close>.\<close>

fun py_len :: "json \<Rightarrow> nat res" where
  "py_len (JArr xs) = Inr (length xs)"
| "py_len (JObj kvs) = Inr (length kvs)"
| "py_len (JStr s) = Inr (length s)"
| "py_len v = Inl TypeError"

text \<open>
  \<^verbatim>\<open>v[0]\<close>. The keys of a parsed dict are strings, so the integer key 0 is never there.
\<close>

fun py_first :: "json \<Rightarrow> json res" where
  "py_first (JArr []) = Inl IndexError"
| "py_first (JArr (x # xs)) = Inr x"
| "py_first (JStr []) = Inl IndexError"
| "py_first (JStr (c # cs)) = Inr (JStr [c])"
| "py_first (JObj kvs) = Inl KeyError"
| "py_first v = Inl TypeError"

text \<open>
  \<^verbatim>\<open>for x in v[1:]\<close>. Slicing a dict raises (TypeError up to Python 3.11, KeyError from
  3.12 on); the model takes TypeError.
\<close>

fun py_rest :: "json \<Rightarrow> json list res" where
  "py_rest (JArr xs) = Inr (drop 1 xs)"
| "py_rest (JStr s) = Inr (map (\<lambda>c. JStr [c]) (drop 1 s))"
| "py_rest v = Inl TypeError"

text \<open>\<^verbatim>\<open>v.startswith(p)\<close>: a method of strings only.\<close>

definition py_startswith :: "json \<Rightarrow> pystr \<Rightarrow> bool res" where
  "py_startswith v p =
     (case v of JStr s \<Rightarrow> Inr (take (length p) s = p) | _ \<Rightarrow> Inl AttributeError)"

text \<open>\<^verbatim>\<open>v.strip()\<close>: removes the code points of \<^verbatim>\<open>str.isspace\<close> at both ends.\<close>

definition is_space :: "nat \<Rightarrow> bool" where
  "is_space c \<longleftrightarrow>
     (9 \<le> c \<and> c \<le> 13) \<or> (28 \<le> c \<and> c \<le> 32) \<or> c = 133 \<or> c = 160 \<or> c = 5760 \<or>
     (8192 \<le> c \<and> c \<le> 8202) \<or> c = 8232 \<or> c = 8233 \<or> c = 8239 \<or> c = 8287 \<or> c = 12288"

definition strip :: "pystr \<Rightarrow> pystr" where
  "strip s = rev (dropWhile is_space (rev (dropWhile is_space s)))"

definition py_strip :: "json \<Rightarrow> pystr res" where
  "py_strip v = (case v of JStr s \<Rightarrow> Inr (strip s) | _ \<Rightarrow> Inl AttributeError)"

text \<open>\<^verbatim>\<open>sep.join(xs)\<close> on a list of values: every one of them must be a string.\<close>

fun join_str :: "pystr \<Rightarrow> pystr list \<Rightarrow> pystr" where
  "join_str sep [] = []"
| "join_str sep [x] = x"
| "join_str sep (x # y # ys) = x @ sep @ join_str sep (y # ys)"

fun strs_of :: "json list \<Rightarrow> pystr list res" where
  "strs_of [] = Inr []"
| "strs_of (JStr s # xs) = (case strs_of xs of Inl e \<Rightarrow> Inl e | Inr ss \<Rightarrow> Inr (s # ss))"
| "strs_of (v # xs) = Inl TypeError"

definition py_join :: "pystr \<Rightarrow> json list \<Rightarrow> pystr res" where
  "py_join sep xs = bind_res (strs_of xs) (\<lambda>ss. Inr (join_str sep ss))"

text \<open>\<^verbatim>\<open>str(i)\<close> of an integer: its decimal digits.\<close>

fun str_nat :: "nat \<Rightarrow> pystr" where
  "str_nat n = (if n < 10 then [48 + n] else str_nat (n div 10) @ [48 + n mod 10])"

definition str_int :: "int \<Rightarrow> pystr" where
  "str_int i = (if i < 0 then 45 # str_nat (nat (- i)) else str_nat (nat i))"

text \<open>
  \<^verbatim>\<open>str(v)\<close>, which is also what an f-string does with \<^verbatim>\<open>{v}\<close>. For a list or a dict
  it is \<^verbatim>\<open>repr(v)\<close>, whose escaping of strings follows the interpreter's character tables;
  that function is the parameter \<open>R\<close> of everything below.
\<close>

fun py_str :: "(json \<Rightarrow> pystr) \<Rightarrow> json \<Rightarrow> pystr" where
  "py_str R (JStr s) = s"
| "py_str R JNull = ascii ''None''"
| "py_str R (JBool b) = (if b then ascii ''True'' else ascii ''False'')"
| "py_str R (JInt i) = str_int i"
| "py_str R (JFloat r) = r"
| "py_str R (JArr xs) = R (JArr xs)"
| "py_str R (JObj kvs) = R (JObj kvs)"

text \<open>
  One such function, for evaluating the program on concrete documents: the interpreter's
  \<^verbatim>\<open>repr\<close> on values whose strings are printable ASCII without quote or backslash.
\<close>

fun repr_plain :: "json \<Rightarrow> pystr" where
  "repr_plain JNull = ascii ''None''"
| "repr_plain (JBool b) = (if b then ascii ''True'' else ascii ''False'')"
| "repr_plain (JInt i) = str_int i"
| "repr_plain (JFloat r) = r"
| "repr_plain (JStr s) = 39 # s @ [39]"
| "repr_plain (JArr xs) = 91 # join_str (ascii '', '') (map repr_plain xs) @ [93]"
| "repr_plain (JObj kvs) =
     123 # join_str (ascii '', '')
       (map (\<lambda>kv. 39 # fst kv @ [39] @ ascii '': '' @ repr_plain (snd kv)) kvs) @ [125]"

subsection \<open>Loops\<close>

text \<open>
  A \<^verbatim>\<open>for\<close> loop whose body may \<^verbatim>\<open>return\<close>: the body gives \<open>Some v\<close> when it returns
  \<open>v\<close> and \<open>None\<close> when the loop goes on; an exception ends the loop.
\<close>

fun for_return :: "('a \<Rightarrow> 'b option res) \<Rightarrow> 'a list \<Rightarrow> 'b option res" where
  "for_return body [] = Inr None"
| "for_return body (x # xs) =
     (case body x of
        Inl e \<Rightarrow> Inl e
      | Inr (Some v) \<Rightarrow> Inr (Some v)
      | Inr None \<Rightarrow> for_return body xs)"

text \<open>
  A \<^verbatim>\<open>for\<close> loop that appends to a list: the body gives what one iteration appends.
\<close>

fun for_append :: "('a \<Rightarrow> 'b list res) \<Rightarrow> 'a list \<Rightarrow> 'b list res" where
  "for_append body [] = Inr []"
| "for_append body (x # xs) =
     (case body x of
        Inl e \<Rightarrow> Inl e
      | Inr ys \<Rightarrow> (case for_append body xs of Inl e \<Rightarrow> Inl e | Inr zs \<Rightarrow> Inr (ys @ zs)))"

section \<open>The converter\<close>

text \<open>\<^verbatim>\<open>d.get(k, dflt)\<close> where \<open>d\<close> is already known to be a dict.\<close>

definition dict_get :: "(pystr \<times> json) list \<Rightarrow> pystr \<Rightarrow> json \<Rightarrow> json" where
  "dict_get kvs k dflt = (case map_of kvs k of None \<Rightarrow> dflt | Some v \<Rightarrow> v)"

subsection \<open>Credential extraction\<close>

definition extract_username_body :: "json \<Rightarrow> json option res" where
  "extract_username_body field =
     bind_res (py_get field (ascii ''designation'') JNull) (\<lambda>designation.
       if designation = JStr (ascii ''username'')
       then bind_res (py_get field (ascii ''value'') (JStr [])) (\<lambda>v. Inr (Some v))
       else Inr None)"

definition extract_username :: "json \<Rightarrow> json res" where
  "extract_username login_fields =
     bind_res (py_iter login_fields) (\<lambda>fields.
     bind_res (for_return extract_username_body fields) (\<lambda>r.
       Inr (case r of Some v \<Rightarrow> v | None \<Rightarrow> JNull)))"

definition extract_password_body :: "json \<Rightarrow> json option res" where
  "extract_password_body field =
     bind_res (py_get field (ascii ''designation'') JNull) (\<lambda>designation.
       if designation = JStr (ascii ''password'')
       then bind_res (py_get field (ascii ''value'') (JStr [])) (\<lambda>v. Inr (Some v))
       else Inr None)"

definition extract_password :: "json \<Rightarrow> json res" where
  "extract_password login_fields =
     bind_res (py_iter login_fields) (\<lambda>fields.
     bind_res (for_return extract_password_body fields) (\<lambda>r.
       Inr (case r of Some v \<Rightarrow> v | None \<Rightarrow> JNull)))"

text \<open>The body of the inner loop of \<^verbatim>\<open>extract_otp_auth\<close>, for one field.\<close>

definition otp_field :: "json \<Rightarrow> json option res" where
  "otp_field field =
     bind_res (py_get field (ascii ''id'') (JStr [])) (\<lambda>field_id.
     bind_res (py_startswith field_id (ascii ''TOTP_'')) (\<lambda>is_otp.
       if is_otp then
         bind_res (py_get field (ascii ''value'') (JObj [])) (\<lambda>value.
           case value of
             JObj kvs \<Rightarrow>
               (let totp = dict_get kvs (ascii ''totp'') (JStr [])
                in if truthy totp then Inr (Some totp) else Inr None)
           | JStr s \<Rightarrow> Inr (Some value)
           | _ \<Rightarrow> Inr None)
       else Inr None))"

text \<open>The body of its outer loop, for one section.\<close>

definition otp_section :: "json \<Rightarrow> json option res" where
  "otp_section section =
     bind_res (py_get section (ascii ''fields'') (JArr [])) (\<lambda>fields.
     bind_res (py_iter fields) (for_return otp_field))"

definition extract_otp_auth :: "json \<Rightarrow> json res" where
  "extract_otp_auth sections =
     bind_res (py_iter sections) (\<lambda>ss.
     bind_res (for_return otp_section ss) (\<lambda>r.
       Inr (case r of Some v \<Rightarrow> v | None \<Rightarrow> JNull)))"

subsection \<open>Primary URL\<close>

definition extract_url :: "json \<Rightarrow> json res" where
  "extract_url overview =
     bind_res (py_get overview (ascii ''url'') JNull) (\<lambda>url.
       if truthy url then Inr url
       else
         bind_res (py_get overview (ascii ''urls'') (JArr [])) (\<lambda>urls.
           if truthy urls then
             bind_res (py_len urls) (\<lambda>n.
               if n > 0
               then bind_res (py_first urls) (\<lambda>u. py_get u (ascii ''url'') (JStr []))
               else Inr JNull)
           else Inr JNull))"

subsection \<open>Formatting one field value\<close>

text \<open>The address branch, once \<^verbatim>\<open>addr\<close> is known to be a dict.\<close>

definition format_address :: "(pystr \<times> json) list \<Rightarrow> json res" where
  "format_address addr =
     (let street = dict_get addr (ascii ''street'') JNull;
          parts0 = (if truthy street then [street] else []);
          city = dict_get addr (ascii ''city'') (JStr []);
          state = dict_get addr (ascii ''state'') (JStr []);
          zip_code = dict_get addr (ascii ''zip'') (JStr []);
          country = dict_get addr (ascii ''country'') (JStr []);
          city_parts = filter truthy [city, state, zip_code]
      in
        bind_res
          (if city_parts \<noteq> []
           then bind_res (py_join (ascii '', '') city_parts) (\<lambda>s. Inr (parts0 @ [JStr s]))
           else Inr parts0) (\<lambda>parts1.
        let parts = parts1 @ (if truthy country then [country] else [])
        in if parts \<noteq> []
           then bind_res (py_join (ascii '', '') parts) (\<lambda>s. Inr (JStr s))
           else Inr JNull))"

text \<open>The loop over the keys \<^verbatim>\<open>value\<close>, \<^verbatim>\<open>text\<close>, \<^verbatim>\<open>name\<close>, \<^verbatim>\<open>label\<close>.\<close>

fun incidental :: "(json \<Rightarrow> pystr) \<Rightarrow> (pystr \<times> json) list \<Rightarrow> pystr list \<Rightarrow> json" where
  "incidental R kvs [] = JNull"
| "incidental R kvs (key # keys) =
     (case map_of kvs key of
        Some val \<Rightarrow> if truthy val then JStr (py_str R val) else incidental R kvs keys
      | None \<Rightarrow> incidental R kvs keys)"

definition incidental_keys :: "pystr list" where
  "incidental_keys = [ascii ''value'', ascii ''text'', ascii ''name'', ascii ''label'']"

text \<open>
  The function returns a Python value: \<^verbatim>\<open>None\<close> (here \<open>JNull\<close>), a string, or whatever
  the document holds under \<^verbatim>\<open>concealed\<close>, \<^verbatim>\<open>string\<close>, \<^verbatim>\<open>menu\<close> or \<^verbatim>\<open>provider\<close>.
\<close>

definition format_field_value :: "(json \<Rightarrow> pystr) \<Rightarrow> json \<Rightarrow> json res" where
  "format_field_value R field_value =
     (if \<not> truthy field_value then Inr JNull
      else
        case field_value of
          JStr s \<Rightarrow> Inr field_value
        | JObj kvs \<Rightarrow>
            (case map_of kvs (ascii ''concealed'') of
               Some v \<Rightarrow> Inr v
             | None \<Rightarrow>
            (case map_of kvs (ascii ''string'') of
               Some v \<Rightarrow> Inr v
             | None \<Rightarrow>
            (case map_of kvs (ascii ''ssoLogin'') of
               Some sso_login \<Rightarrow>
                 (case sso_login of
                    JObj sso \<Rightarrow>
                      (let provider = dict_get sso (ascii ''provider'') (JStr [])
                       in Inr (if truthy provider then provider else JNull))
                  | _ \<Rightarrow> Inr JNull)
             | None \<Rightarrow>
            (case map_of kvs (ascii ''menu'') of
               Some menu_value \<Rightarrow> Inr (if truthy menu_value then menu_value else JNull)
             | None \<Rightarrow>
            (case map_of kvs (ascii ''address'') of
               Some addr \<Rightarrow>
                 (case addr of
                    JObj a \<Rightarrow> format_address a
                  | _ \<Rightarrow> Inr (incidental R kvs incidental_keys))
             | None \<Rightarrow> Inr (incidental R kvs incidental_keys))))))
        | _ \<Rightarrow> Inr (JStr (py_str R field_value)))"

subsection \<open>The Notes column\<close>

text \<open>The literals of \<^verbatim>\<open>build_notes\<close>, as code points.\<close>

definition tags_label :: pystr where
  "tags_label = [0x6A19, 0x7C64, 0x3A, 0x20]"

definition other_fields_header :: pystr where
  "other_fields_header = [0x5176, 0x4ED6, 0x6B04, 0x4F4D, 0x3A, 0x0A]"

definition section_fields_header :: pystr where
  "section_fields_header = [0x984D, 0x5916, 0x8CC7, 0x8A0A, 0x3A, 0x0A]"

definition other_urls_header :: pystr where
  "other_urls_header = [0x5176, 0x4ED6, 0x7DB2, 0x5740, 0x3A, 0x0A]"

definition history_label :: pystr where
  "history_label = [0x5BC6, 0x78BC, 0x6B77, 0x53F2, 0x8A18, 0x9304, 0x3A, 0x20]"

definition history_unit :: pystr where
  "history_unit = [0x20, 0x7B46]"

definition delimiter :: pystr where
  "delimiter = [0x0A, 0x2D, 0x2D, 0x2D, 0x0A]"

text \<open>The bullet lines under a header: one line per entry, joined by a newline.\<close>

definition bullets :: "(json \<Rightarrow> pystr) \<Rightarrow> json list \<Rightarrow> pystr" where
  "bullets R fs = join_str [0x0A] (map (\<lambda>f. ascii ''  - '' @ py_str R f) fs)"

text \<open>
  Each of the six steps of \<^verbatim>\<open>build_notes\<close> gives what it appends to \<^verbatim>\<open>notes_parts\<close>:
  nothing or one string.
\<close>

definition notes_plain_block :: "json \<Rightarrow> pystr list res" where
  "notes_plain_block details =
     bind_res (py_get details (ascii ''notesPlain'') (JStr [])) (\<lambda>notes_plain.
       if truthy notes_plain
       then bind_res (py_strip notes_plain) (\<lambda>s. Inr [s])
       else Inr [])"

definition tags_block :: "json \<Rightarrow> pystr list res" where
  "tags_block overview =
     bind_res (py_get overview (ascii ''tags'') (JArr [])) (\<lambda>tags.
       if truthy tags
       then bind_res (py_iter tags) (\<lambda>ts.
            bind_res (py_join (ascii '', '') ts) (\<lambda>tags_str.
              Inr [tags_label @ tags_str]))
       else Inr [])"

definition other_field :: "(json \<Rightarrow> pystr) \<Rightarrow> json \<Rightarrow> json list res" where
  "other_field R field =
     bind_res (py_get field (ascii ''designation'') (JStr [])) (\<lambda>designation.
       if designation \<noteq> JStr (ascii ''username'') \<and> designation \<noteq> JStr (ascii ''password'')
       then
         bind_res (py_get field (ascii ''name'') (JStr [])) (\<lambda>field_name.
         bind_res (py_get field (ascii ''value'') (JStr [])) (\<lambda>field_value.
           if truthy field_value then
             (if truthy field_name
              then Inr [JStr (py_str R field_name @ ascii '': '' @ py_str R field_value)]
              else Inr [field_value])
           else Inr []))
       else Inr [])"

definition login_fields_block :: "(json \<Rightarrow> pystr) \<Rightarrow> json \<Rightarrow> pystr list res" where
  "login_fields_block R details =
     bind_res (py_get details (ascii ''loginFields'') (JArr [])) (\<lambda>login_fields.
     bind_res (py_iter login_fields) (\<lambda>fields.
     bind_res (for_append (other_field R) fields) (\<lambda>other_fields.
       if other_fields \<noteq> []
       then Inr [other_fields_header @ bullets R other_fields]
       else Inr [])))"

definition section_field :: "(json \<Rightarrow> pystr) \<Rightarrow> json \<Rightarrow> json \<Rightarrow> json list res" where
  "section_field R section_title field =
     bind_res (py_get field (ascii ''id'') (JStr [])) (\<lambda>field_id.
     bind_res (py_startswith field_id (ascii ''TOTP_'')) (\<lambda>is_otp.
       if is_otp then Inr []
       else
         bind_res (py_get field (ascii ''title'') (JStr [])) (\<lambda>field_title.
         bind_res (py_get field (ascii ''value'') (JStr [])) (\<lambda>field_value.
         bind_res (format_field_value R field_value) (\<lambda>formatted_value.
           if truthy formatted_value then
             (if truthy section_title \<and> truthy field_title
              then Inr [JStr (py_str R section_title @ ascii '' - '' @ py_str R field_title
                              @ ascii '': '' @ py_str R formatted_value)]
              else if truthy field_title
              then Inr [JStr (py_str R field_title @ ascii '': '' @ py_str R formatted_value)]
              else Inr [formatted_value])
           else Inr [])))))"

definition section_body :: "(json \<Rightarrow> pystr) \<Rightarrow> json \<Rightarrow> json list res" where
  "section_body R section =
     bind_res (py_get section (ascii ''title'') (JStr [])) (\<lambda>section_title.
     bind_res (py_get section (ascii ''fields'') (JArr [])) (\<lambda>fields.
     bind_res (py_iter fields) (for_append (section_field R section_title))))"

definition sections_block :: "(json \<Rightarrow> pystr) \<Rightarrow> json \<Rightarrow> pystr list res" where
  "sections_block R details =
     bind_res (py_get details (ascii ''sections'') (JArr [])) (\<lambda>sections.
     bind_res (py_iter sections) (\<lambda>ss.
     bind_res (for_append (section_body R) ss) (\<lambda>section_fields.
       if section_fields \<noteq> []
       then Inr [section_fields_header @ bullets R section_fields]
       else Inr [])))"

definition other_url :: "(json \<Rightarrow> pystr) \<Rightarrow> json \<Rightarrow> json list res" where
  "other_url R url_obj =
     bind_res (py_get url_obj (ascii ''url'') (JStr [])) (\<lambda>url_str.
     bind_res (py_get url_obj (ascii ''label'') (JStr [])) (\<lambda>label.
       if truthy url_str then
         (if truthy label
          then Inr [JStr (py_str R label @ ascii '': '' @ py_str R url_str)]
          else Inr [url_str])
       else Inr []))"

definition urls_block :: "(json \<Rightarrow> pystr) \<Rightarrow> json \<Rightarrow> pystr list res" where
  "urls_block R overview =
     bind_res (py_get overview (ascii ''urls'') (JArr [])) (\<lambda>urls.
     bind_res (py_len urls) (\<lambda>n.
       if n > 1 then
         bind_res (py_rest urls) (\<lambda>rest.
         bind_res (for_append (other_url R) rest) (\<lambda>other_urls.
           if other_urls \<noteq> []
           then Inr [other_urls_header @ bullets R other_urls]
           else Inr []))
       else Inr []))"

definition history_block :: "json \<Rightarrow> pystr list res" where
  "history_block details =
     bind_res (py_get details (ascii ''passwordHistory'') (JArr [])) (\<lambda>password_history.
       if truthy password_history
       then bind_res (py_len password_history) (\<lambda>n.
              Inr [history_label @ str_nat n @ history_unit])
       else Inr [])"

definition build_notes :: "(json \<Rightarrow> pystr) \<Rightarrow> json \<Rightarrow> json \<Rightarrow> pystr res" where
  "build_notes R details overview =
     bind_res (notes_plain_block details) (\<lambda>b1.
     bind_res (tags_block overview) (\<lambda>b2.
     bind_res (login_fields_block R details) (\<lambda>b3.
     bind_res (sections_block R details) (\<lambda>b4.
     bind_res (urls_block R overview) (\<lambda>b5.
     bind_res (history_block details) (\<lambda>b6.
       Inr (join_str delimiter (b1 @ b2 @ b3 @ b4 @ b5 @ b6))))))))"

subsection \<open>Rows\<close>

record csv_row =
  Title :: json
  URL :: json
  Username :: json
  Password :: json
  Notes :: pystr
  OTPAuth :: json

definition convert_item_to_csv_row :: "(json \<Rightarrow> pystr) \<Rightarrow> json \<Rightarrow> csv_row res" where
  "convert_item_to_csv_row R item =
     bind_res (py_get item (ascii ''overview'') (JObj [])) (\<lambda>overview.
     bind_res (py_get item (ascii ''details'') (JObj [])) (\<lambda>details.
     bind_res (py_get overview (ascii ''title'') (JStr [])) (\<lambda>title.
     bind_res (extract_url overview) (\<lambda>url.
     bind_res (py_get details (ascii ''loginFields'') (JArr [])) (\<lambda>login_fields.
     bind_res (extract_username login_fields) (\<lambda>username.
     bind_res (extract_password login_fields) (\<lambda>password.
     bind_res (py_get details (ascii ''sections'') (JArr [])) (\<lambda>sections.
     bind_res (extract_otp_auth sections) (\<lambda>otp_auth.
     bind_res (build_notes R details overview) (\<lambda>notes.
       Inr \<lparr>Title = title,
            URL = py_or url (JStr []),
            Username = py_or username (JStr []),
            Password = py_or password (JStr []),
            Notes = notes,
            OTPAuth = py_or otp_auth (JStr [])\<rparr>))))))))))"

text \<open>
  The body of the innermost loop of \<^verbatim>\<open>convert_1pux_to_csv\<close>: what one item appends to
  \<^verbatim>\<open>csv_rows\<close>.
\<close>

definition item_rows :: "(json \<Rightarrow> pystr) \<Rightarrow> bool \<Rightarrow> json \<Rightarrow> csv_row list res" where
  "item_rows R include_archived item =
     bind_res (py_get item (ascii ''state'') (JStr (ascii ''active''))) (\<lambda>state.
       if \<not> include_archived \<and> state = JStr (ascii ''archived'')
       then Inr []
       else bind_res (convert_item_to_csv_row R item) (\<lambda>csv_row. Inr [csv_row]))"

definition vault_rows :: "(json \<Rightarrow> pystr) \<Rightarrow> bool \<Rightarrow> json \<Rightarrow> csv_row list res" where
  "vault_rows R include_archived vault =
     bind_res (py_get vault (ascii ''items'') (JArr [])) (\<lambda>items.
     bind_res (py_iter items) (for_append (item_rows R include_archived)))"

definition account_rows :: "(json \<Rightarrow> pystr) \<Rightarrow> bool \<Rightarrow> json \<Rightarrow> csv_row list res" where
  "account_rows R include_archived account =
     bind_res (py_get account (ascii ''vaults'') (JArr [])) (\<lambda>vaults.
     bind_res (py_iter vaults) (for_append (vault_rows R include_archived)))"

text \<open>
  \<^verbatim>\<open>convert_1pux_to_csv\<close> between reading the document and writing the file: the value
  of \<^verbatim>\<open>csv_rows\<close> that is handed to the CSV writer.
\<close>

definition convert_1pux_to_csv :: "(json \<Rightarrow> pystr) \<Rightarrow> json \<Rightarrow> bool \<Rightarrow> csv_row list res" where
  "convert_1pux_to_csv R data include_archived =
     bind_res (py_get data (ascii ''accounts'') (JArr [])) (\<lambda>accounts.
     bind_res (py_iter accounts) (for_append (account_rows R include_archived)))"

section \<open>Notions the properties are stated with\<close>

subsection \<open>Shapes of field values\<close>

text \<open>
  The entry \<open>k\<close> of a dict is a string or missing; and its text, empty when it is
  missing.
\<close>

definition textual :: "(pystr \<times> json) list \<Rightarrow> pystr \<Rightarrow> bool" where
  "textual kvs k =
     (case map_of kvs k of None \<Rightarrow> True | Some v \<Rightarrow> (case v of JStr s \<Rightarrow> True | _ \<Rightarrow> False))"

definition text_at :: "(pystr \<times> json) list \<Rightarrow> pystr \<Rightarrow> pystr" where
  "text_at kvs k =
     (case map_of kvs k of None \<Rightarrow> [] | Some v \<Rightarrow> (case v of JStr s \<Rightarrow> s | _ \<Rightarrow> []))"

text \<open>
  The composition of an address as the specification words it: the street; city, state
  and postal code joined with a comma and a space, empty members left out; the country;
  the non-empty segments joined with a comma and a space, and absent when there is none.
\<close>

definition address_segments :: "(pystr \<times> json) list \<Rightarrow> pystr list" where
  "address_segments a =
     filter (\<lambda>s. s \<noteq> [])
       [text_at a (ascii ''street''),
        join_str (ascii '', '')
          (filter (\<lambda>s. s \<noteq> [])
             [text_at a (ascii ''city''), text_at a (ascii ''state''), text_at a (ascii ''zip'')]),
        text_at a (ascii ''country'')]"

definition address_text :: "(pystr \<times> json) list \<Rightarrow> json" where
  "address_text a =
     (if address_segments a = [] then JNull else JStr (join_str (ascii '', '') (address_segments a)))"

text \<open>
  A value that the formatter treats as a postal address: no key of an earlier case, an
  \<^verbatim>\<open>address\<close> dict, and textual parts.
\<close>

definition address_shape :: "(pystr \<times> json) list \<Rightarrow> (pystr \<times> json) list \<Rightarrow> bool" where
  "address_shape kvs a \<longleftrightarrow>
     map_of kvs (ascii ''concealed'') = None \<and> map_of kvs (ascii ''string'') = None \<and>
     map_of kvs (ascii ''ssoLogin'') = None \<and> map_of kvs (ascii ''menu'') = None \<and>
     map_of kvs (ascii ''address'') = Some (JObj a) \<and>
     list_all (textual a)
       [ascii ''street'', ascii ''city'', ascii ''state'', ascii ''zip'', ascii ''country'']"

text \<open>A dict with none of the keys the formatter recognises.\<close>

definition unrecognized_shape :: "(pystr \<times> json) list \<Rightarrow> bool" where
  "unrecognized_shape kvs \<longleftrightarrow>
     map_of kvs (ascii ''concealed'') = None \<and> map_of kvs (ascii ''string'') = None \<and>
     map_of kvs (ascii ''ssoLogin'') = None \<and> map_of kvs (ascii ''menu'') = None \<and>
     map_of kvs (ascii ''address'') = None"

text \<open>
  The first key of the priority list that is present with a non-empty value, as text
  (the reading of specification 4.1, rule 9).
\<close>

definition nonempty_at :: "(pystr \<times> json) list \<Rightarrow> pystr \<Rightarrow> bool" where
  "nonempty_at kvs k = (case map_of kvs k of None \<Rightarrow> False | Some v \<Rightarrow> truthy v)"

definition first_nonempty_text :: "(json \<Rightarrow> pystr) \<Rightarrow> (pystr \<times> json) list \<Rightarrow> json" where
  "first_nonempty_text R kvs =
     (case find (nonempty_at kvs) incidental_keys of
        None \<Rightarrow> JNull
      | Some k \<Rightarrow> JStr (py_str R (dict_get kvs k JNull)))"

text \<open>
  The first key of the priority list that is present, whatever its value, as text (the
  reading \<^emph>\<open>first present wins, even if that key's value is empty\<close>).
\<close>

definition present_at :: "(pystr \<times> json) list \<Rightarrow> pystr \<Rightarrow> bool" where
  "present_at kvs k = (case map_of kvs k of None \<Rightarrow> False | Some v \<Rightarrow> True)"

definition first_present_text :: "(json \<Rightarrow> pystr) \<Rightarrow> (pystr \<times> json) list \<Rightarrow> json" where
  "first_present_text R kvs =
     (case find (present_at kvs) incidental_keys of
        None \<Rightarrow> JNull
      | Some k \<Rightarrow> JStr (py_str R (dict_get kvs k JNull)))"

text \<open>
  A field value whose string-valued parts are strings where present: what the data model
  calls a concealed string, an opaque string, a menu selection, an SSO descriptor with
  its provider, and a postal address. Any value that is not a dict qualifies.
\<close>

definition sub_dict :: "(pystr \<times> json) list \<Rightarrow> pystr \<Rightarrow> ((pystr \<times> json) list \<Rightarrow> bool) \<Rightarrow> bool" where
  "sub_dict kvs k P =
     (case map_of kvs k of None \<Rightarrow> True | Some v \<Rightarrow> (case v of JObj d \<Rightarrow> P d | _ \<Rightarrow> True))"

definition shaped_value :: "json \<Rightarrow> bool" where
  "shaped_value v =
     (case v of
        JObj kvs \<Rightarrow>
          textual kvs (ascii ''concealed'') \<and> textual kvs (ascii ''string'') \<and>
          textual kvs (ascii ''menu'') \<and>
          sub_dict kvs (ascii ''ssoLogin'') (\<lambda>sso. textual sso (ascii ''provider'')) \<and>
          sub_dict kvs (ascii ''address'') (\<lambda>a. list_all (textual a)
            [ascii ''street'', ascii ''city'', ascii ''state'', ascii ''zip'', ascii ''country''])
      | _ \<Rightarrow> True)"

definition is_text :: "json \<Rightarrow> bool" where
  "is_text v = (case v of JStr s \<Rightarrow> True | _ \<Rightarrow> False)"

subsection \<open>Details without their one-time-password fields\<close>

text \<open>
  A section field is a one-time-password field when the test of \<^verbatim>\<open>build_notes\<close> and
  \<^verbatim>\<open>extract_otp_auth\<close>, \<^verbatim>\<open>field.get('id', '').startswith('TOTP_')\<close>, returns true. The
  details without these fields: every list under \<^verbatim>\<open>fields\<close> of every section in the list
  under \<^verbatim>\<open>sections\<close> loses them, and nothing else changes.
\<close>

definition is_otp_field :: "json \<Rightarrow> bool" where
  "is_otp_field field \<longleftrightarrow>
     bind_res (py_get field (ascii ''id'') (JStr [])) (\<lambda>field_id.
       py_startswith field_id (ascii ''TOTP_'')) = Inr True"

definition map_entry :: "pystr \<Rightarrow> (json \<Rightarrow> json) \<Rightarrow> (pystr \<times> json) list \<Rightarrow> (pystr \<times> json) list" where
  "map_entry k f kvs = map (\<lambda>kv. if fst kv = k then (fst kv, f (snd kv)) else kv) kvs"

definition section_without_otp :: "json \<Rightarrow> json" where
  "section_without_otp section =
     (case section of
        JObj kvs \<Rightarrow>
          JObj (map_entry (ascii ''fields'')
            (\<lambda>fields. case fields of
               JArr fs \<Rightarrow> JArr (filter (\<lambda>f. \<not> is_otp_field f) fs)
             | _ \<Rightarrow> fields) kvs)
      | _ \<Rightarrow> section)"

definition details_without_otp :: "json \<Rightarrow> json" where
  "details_without_otp details =
     (case details of
        JObj kvs \<Rightarrow>
          JObj (map_entry (ascii ''sections'')
            (\<lambda>sections. case sections of
               JArr ss \<Rightarrow> JArr (map section_without_otp ss)
             | _ \<Rightarrow> sections) kvs)
      | _ \<Rightarrow> details)"

subsection \<open>Shapes of items\<close>

text \<open>
  The types the data model gives to the parts of an item. Every key is optional: a
  missing key takes the default of the \<^verbatim>\<open>get\<close> that reads it.
\<close>

definition opt_field :: "(pystr \<times> json) list \<Rightarrow> pystr \<Rightarrow> (json \<Rightarrow> bool) \<Rightarrow> bool" where
  "opt_field kvs k P = (case map_of kvs k of None \<Rightarrow> True | Some v \<Rightarrow> P v)"

definition is_dict :: "json \<Rightarrow> bool" where
  "is_dict v = (case v of JObj kvs \<Rightarrow> True | _ \<Rightarrow> False)"

definition list_of :: "(json \<Rightarrow> bool) \<Rightarrow> json \<Rightarrow> bool" where
  "list_of P v = (case v of JArr xs \<Rightarrow> list_all P xs | _ \<Rightarrow> False)"

definition dict_with :: "((pystr \<times> json) list \<Rightarrow> bool) \<Rightarrow> json \<Rightarrow> bool" where
  "dict_with P v = (case v of JObj kvs \<Rightarrow> P kvs | _ \<Rightarrow> False)"

definition shaped_section_field :: "json \<Rightarrow> bool" where
  "shaped_section_field =
     dict_with (\<lambda>kvs. opt_field kvs (ascii ''id'') is_text \<and>
                      opt_field kvs (ascii ''value'') shaped_value)"

definition shaped_section :: "json \<Rightarrow> bool" where
  "shaped_section =
     dict_with (\<lambda>kvs. opt_field kvs (ascii ''fields'') (list_of shaped_section_field))"

definition shaped_details :: "json \<Rightarrow> bool" where
  "shaped_details =
     dict_with (\<lambda>kvs. opt_field kvs (ascii ''notesPlain'') is_text \<and>
                      opt_field kvs (ascii ''loginFields'') (list_of is_dict) \<and>
                      opt_field kvs (ascii ''sections'') (list_of shaped_section) \<and>
                      opt_field kvs (ascii ''passwordHistory'') (list_of (\<lambda>h. True)))"

definition shaped_overview :: "json \<Rightarrow> bool" where
  "shaped_overview =
     dict_with (\<lambda>kvs. opt_field kvs (ascii ''urls'') (list_of is_dict) \<and>
                      opt_field kvs (ascii ''tags'') (list_of is_text))"

definition shaped_item :: "json \<Rightarrow> bool" where
  "shaped_item =
     dict_with (\<lambda>kvs. opt_field kvs (ascii ''overview'') shaped_overview \<and>
                      opt_field kvs (ascii ''details'') shaped_details)"

subsection \<open>The items of a document\<close>

text \<open>
  The items of a document in traversal order: the three nested loops of
  \<^verbatim>\<open>convert_1pux_to_csv\<close> without their body.
\<close>

definition vault_items :: "json \<Rightarrow> json list res" where
  "vault_items vault = bind_res (py_get vault (ascii ''items'') (JArr [])) py_iter"

definition account_items :: "json \<Rightarrow> json list res" where
  "account_items account =
     bind_res (py_get account (ascii ''vaults'') (JArr [])) (\<lambda>vaults.
     bind_res (py_iter vaults) (for_append vault_items))"

definition document_items :: "json \<Rightarrow> json list res" where
  "document_items data =
     bind_res (py_get data (ascii ''accounts'') (JArr [])) (\<lambda>accounts.
     bind_res (py_iter accounts) (for_append account_items))"

text \<open>An item is included unless it is archived and archived items were not asked for.\<close>

definition included :: "bool \<Rightarrow> json \<Rightarrow> bool" where
  "included include_archived item =
     (if include_archived then True
      else py_get item (ascii ''state'') (JStr (ascii ''active'')) \<noteq> Inr (JStr (ascii ''archived'')))"

text \<open>
  The state of an item as the document holds it: the item is a dict whose \<^verbatim>\<open>state\<close> is
  the string \<^verbatim>\<open>archived\<close>; the item is a dict without a \<^verbatim>\<open>state\<close> key.
\<close>

definition state_is_archived :: "json \<Rightarrow> bool" where
  "state_is_archived item =
     (case item of
        JObj kvs \<Rightarrow> map_of kvs (ascii ''state'') = Some (JStr (ascii ''archived''))
      | _ \<Rightarrow> False)"

definition state_missing :: "json \<Rightarrow> bool" where
  "state_missing item =
     (case item of JObj kvs \<Rightarrow> map_of kvs (ascii ''state'') = None | _ \<Rightarrow> False)"

subsection \<open>Concrete documents\<close>

text \<open>A small document for evaluating the traversal: four items, one of them archived.\<close>

definition example_item :: "pystr \<Rightarrow> pystr \<Rightarrow> json" where
  "example_item title state =
     JObj [(ascii ''overview'', JObj [(ascii ''title'', JStr title)]),
           (ascii ''state'', JStr state)]"

definition example_document :: json where
  "example_document =
     JObj [(ascii ''accounts'', JArr [
       JObj [(ascii ''vaults'', JArr [
         JObj [(ascii ''items'', JArr [example_item (ascii ''A'') (ascii ''active''),
                                      example_item (ascii ''B'') (ascii ''archived'')])],
         JObj [(ascii ''items'', JArr [example_item (ascii ''C'') (ascii ''active'')])]])],
       JObj [(ascii ''vaults'', JArr [
         JObj [(ascii ''items'', JArr [example_item (ascii ''D'') (ascii ''active'')])]])]])]"

definition example_row :: "pystr \<Rightarrow> csv_row" where
  "example_row title =
     \<lparr>Title = JStr title, URL = JStr [], Username = JStr [], Password = JStr [],
      Notes = [], OTPAuth = JStr []\<rparr>"

text \<open>An item with a one-time-password field and one other section field.\<close>

definition otp_example_sections :: json where
  "otp_example_sections =
     JArr [
       JObj [(ascii ''title'', JStr (ascii ''Security'')),
             (ascii ''fields'', JArr [
               JObj [(ascii ''id'', JStr (ascii ''TOTP_1'')),
                     (ascii ''title'', JStr (ascii ''one-time password'')),
                     (ascii ''value'', JObj [(ascii ''totp'', JStr (ascii ''JBSWY3DPEHPK3PXP''))])],
               JObj [(ascii ''id'', JStr (ascii ''pin'')),
                     (ascii ''title'', JStr (ascii ''PIN'')),
                     (ascii ''value'', JObj [(ascii ''concealed'', JStr (ascii ''1234''))])]])]]"

definition otp_example_details :: json where
  "otp_example_details = JObj [(ascii ''sections'', otp_example_sections)]"

text \<open>A login item with a user name and a password, and an item whose login fields are null.\<close>

definition login_example_item :: json where
  "login_example_item =
     JObj [(ascii ''overview'',
              JObj [(ascii ''title'', JStr (ascii ''Example'')),
                    (ascii ''url'', JStr (ascii ''https://example.com''))]),
           (ascii ''details'',
              JObj [(ascii ''loginFields'', JArr [
                JObj [(ascii ''designation'', JStr (ascii ''username'')),
                      (ascii ''value'', JStr (ascii ''alice''))],
                JObj [(ascii ''designation'', JStr (ascii ''password'')),
                      (ascii ''value'', JStr (ascii ''p@ss''))]])])]"

definition null_fields_item :: json where
  "null_fields_item = JObj [(ascii ''details'', JObj [(ascii ''loginFields'', JNull)])]"

definition null_fields_document :: json where
  "null_fields_document =
     JObj [(ascii ''accounts'', JArr [
       JObj [(ascii ''vaults'', JArr [
         JObj [(ascii ''items'', JArr [login_example_item, null_fields_item])]])]])]"

text \<open>
  A document with an item that has no state, an archived item and an item whose state is
  spelled \<^verbatim>\<open>Archived\<close>; an archived item whose login fields are null, alone in a
  document; and the item with null login fields and no state, alone in a document.
\<close>

definition stateless_item :: "pystr \<Rightarrow> json" where
  "stateless_item title = JObj [(ascii ''overview'', JObj [(ascii ''title'', JStr title)])]"

definition stateless_document :: json where
  "stateless_document =
     JObj [(ascii ''accounts'', JArr [
       JObj [(ascii ''vaults'', JArr [
         JObj [(ascii ''items'', JArr [stateless_item (ascii ''N''),
                                      example_item (ascii ''B'') (ascii ''archived''),
                                      example_item (ascii ''Z'') (ascii ''Archived'')])]])]])]"



definition stateless_null_document :: json where
  "stateless_null_document =
     JObj [(ascii ''accounts'', JArr [
       JObj [(ascii ''vaults'', JArr [JObj [(ascii ''items'', JArr [null_fields_item])]])]])]"

section \<open>Properties\<close>

text \<open>Unfolding these evaluates the converter on a concrete document.\<close>

lemmas run_builtins =
  py_get_def dict_get_def py_or_def py_startswith_def py_strip_def strip_def is_space_def
  py_join_def str_int_def

lemmas run_extract =
  extract_username_def extract_username_body_def extract_password_def extract_password_body_def
  extract_otp_auth_def otp_section_def otp_field_def extract_url_def

lemmas run_format =
  format_field_value_def format_address_def incidental_keys_def

lemmas run_notes =
  build_notes_def notes_plain_block_def tags_block_def login_fields_block_def other_field_def
  sections_block_def section_body_def section_field_def urls_block_def other_url_def
  history_block_def bullets_def

lemmas run_rows =
  convert_item_to_csv_row_def item_rows_def vault_rows_def account_rows_def
  convert_1pux_to_csv_def

subsection \<open>Formatting and the Notes column\<close>

lemma bind_res_simps [simp]: "bind_res (Inl e) f = Inl e" "bind_res (Inr x) f = f x"
  by (simp_all add: bind_res_def)

lemma strs_of_JStr [simp]: "strs_of (map JStr ss) = Inr ss"
  by (induction ss) simp_all

lemma py_join_JStr [simp]: "py_join sep (map JStr ss) = Inr (join_str sep ss)"
  by (simp add: py_join_def)

lemma textual_get:
  assumes "textual a k"
  shows "dict_get a k (JStr []) = JStr (text_at a k)"
    and "truthy (dict_get a k JNull) \<longleftrightarrow> text_at a k \<noteq> []"
    and "text_at a k \<noteq> [] \<Longrightarrow> dict_get a k JNull = JStr (text_at a k)"
  using assms by (auto simp: textual_def dict_get_def text_at_def split: option.splits json.splits)

lemma format_address_text:
  assumes "list_all (textual a)
       [ascii ''street'', ascii ''city'', ascii ''state'', ascii ''zip'', ascii ''country'']"
  shows "format_address a = Inr (address_text a)"
proof -
  define street where "street = text_at a (ascii ''street'')"
  define city where "city = text_at a (ascii ''city'')"
  define state where "state = text_at a (ascii ''state'')"
  define zip where "zip = text_at a (ascii ''zip'')"
  define country where "country = text_at a (ascii ''country'')"
  have g: "dict_get a (ascii ''city'') (JStr []) = JStr city"
    "dict_get a (ascii ''state'') (JStr []) = JStr state"
    "dict_get a (ascii ''zip'') (JStr []) = JStr zip"
    "dict_get a (ascii ''country'') (JStr []) = JStr country"
    "truthy (dict_get a (ascii ''street'') JNull) \<longleftrightarrow> street \<noteq> []"
    "street \<noteq> [] \<Longrightarrow> dict_get a (ascii ''street'') JNull = JStr street"
    using assms textual_get [of a] unfolding street_def city_def state_def zip_def country_def
    by simp_all
  have j: "py_join sep [JStr x] = Inr x" "py_join sep [JStr x, JStr y] = Inr (x @ sep @ y)"
     "py_join sep [JStr x, JStr y, JStr z] = Inr (x @ sep @ y @ sep @ z)" for sep x y z
    by (simp_all add: py_join_def)
  show ?thesis
    unfolding format_address_def address_text_def address_segments_def Let_def g(1-5)
      street_def [symmetric] city_def [symmetric] state_def [symmetric] zip_def [symmetric]
      country_def [symmetric]
    using g(6) by (simp add: j)
qed


lemma incidental_find:
  "incidental R kvs keys =
     (case find (nonempty_at kvs) keys of
        None \<Rightarrow> JNull
      | Some k \<Rightarrow> JStr (py_str R (dict_get kvs k JNull)))"
  by (induction keys) (auto simp: nonempty_at_def dict_get_def split: option.splits)

lemma format_unrecognized:
  "unrecognized_shape kvs \<Longrightarrow> format_field_value R (JObj kvs) = Inr (first_nonempty_text R kvs)"
  by (cases kvs)
    (simp_all add: unrecognized_shape_def format_field_value_def first_nonempty_text_def
      incidental_find incidental_keys_def nonempty_at_def)

lemma incidental_text: "incidental R kvs keys = JNull \<or> is_text (incidental R kvs keys)"
  by (induction keys) (auto simp: is_text_def split: option.splits)

lemma address_text_text: "address_text a = JNull \<or> is_text (address_text a)"
  by (simp add: address_text_def is_text_def)

lemma textual_cases:
  "textual kvs k \<Longrightarrow> map_of kvs k = Some v \<Longrightarrow> is_text v"
  by (auto simp: textual_def is_text_def split: json.splits)

lemma format_shaped_dict:
  assumes "shaped_value (JObj kvs)"
  shows "\<exists>r. format_field_value R (JObj kvs) = Inr r \<and> (r = JNull \<or> is_text r)"
proof (cases "kvs = []")
  case True
  then show ?thesis by (simp add: format_field_value_def)
next
  case ne: False
  from assms have
    c: "textual kvs (ascii ''concealed'')" and s: "textual kvs (ascii ''string'')" and
    m: "textual kvs (ascii ''menu'')" and
    sso: "sub_dict kvs (ascii ''ssoLogin'') (\<lambda>sso. textual sso (ascii ''provider''))" and
    ad: "sub_dict kvs (ascii ''address'') (\<lambda>a. list_all (textual a)
            [ascii ''street'', ascii ''city'', ascii ''state'', ascii ''zip'', ascii ''country''])"
    by (simp_all add: shaped_value_def)
  show ?thesis
  proof (cases "map_of kvs (ascii ''concealed'')")
    case (Some v)
    with ne textual_cases [OF c Some] show ?thesis by (simp add: format_field_value_def)
  next
    case n1: None
    show ?thesis
    proof (cases "map_of kvs (ascii ''string'')")
      case (Some v)
      with ne n1 textual_cases [OF s Some] show ?thesis by (simp add: format_field_value_def)
    next
      case n2: None
      show ?thesis
      proof (cases "map_of kvs (ascii ''ssoLogin'')")
        case (Some v)
        show ?thesis
        proof (cases v)
          case (JObj d)
          with sso Some have "textual d (ascii ''provider'')" by (simp add: sub_dict_def)
          from textual_get(1) [OF this] ne n1 n2 Some JObj show ?thesis
            by (simp add: format_field_value_def is_text_def)
        qed (use ne n1 n2 Some in \<open>simp_all add: format_field_value_def\<close>)
      next
        case n3: None
        show ?thesis
        proof (cases "map_of kvs (ascii ''menu'')")
          case (Some v)
          with ne n1 n2 n3 textual_cases [OF m Some] show ?thesis
            by (simp add: format_field_value_def)
        next
          case n4: None
          show ?thesis
          proof (cases "map_of kvs (ascii ''address'')")
            case None
            with ne n1 n2 n3 n4 incidental_text [of R kvs incidental_keys] show ?thesis
              by (simp add: format_field_value_def)
          next
            case (Some v)
            show ?thesis
            proof (cases v)
              case (JObj a)
              with ad Some have "list_all (textual a)
                [ascii ''street'', ascii ''city'', ascii ''state'', ascii ''zip'', ascii ''country'']"
                by (simp add: sub_dict_def)
              from format_address_text [OF this] ne n1 n2 n3 n4 Some JObj address_text_text [of a]
              show ?thesis by (simp add: format_field_value_def)
            qed (use ne n1 n2 n3 n4 Some incidental_text [of R kvs incidental_keys] in
                  \<open>simp_all add: format_field_value_def\<close>)
          qed
        qed
      qed
    qed
  qed
qed

lemma format_shaped:
  assumes "shaped_value v"
  shows "\<exists>r. format_field_value R v = Inr r \<and> (r = JNull \<or> is_text r)"
proof (cases v)
  case (JObj kvs)
  with assms format_shaped_dict [of kvs R] show ?thesis by simp
qed (simp_all add: format_field_value_def is_text_def)

lemma format_text_again:
  "r = JNull \<or> is_text r \<Longrightarrow> r \<noteq> JStr [] \<Longrightarrow> format_field_value R r = Inr r"
  by (cases r) (auto simp: format_field_value_def is_text_def)


lemma map_of_map_entry:
  "map_of (map_entry k f kvs) k' =
     (if k' = k then map_option f (map_of kvs k) else map_of kvs k')"
  by (induction kvs) (auto simp: map_entry_def)

lemma py_get_map_entry_other:
  "k' \<noteq> k \<Longrightarrow> py_get (JObj (map_entry k f kvs)) k' d = py_get (JObj kvs) k' d"
  by (simp add: py_get_def map_of_map_entry)

lemma for_append_filter:
  assumes "\<And>x. \<not> P x \<Longrightarrow> f x = Inr []"
  shows "for_append f (filter P xs) = for_append f xs"
  by (induction xs) (simp_all add: assms split: sum.splits)

lemma for_append_map_cong:
  assumes "\<And>x. f (g x) = f x"
  shows "for_append f (map g xs) = for_append f xs"
  by (induction xs) (simp_all add: assms split: sum.splits)

lemma section_field_otp: "is_otp_field field \<Longrightarrow> section_field R t field = Inr []"
  by (cases "py_get field (ascii ''id'') (JStr [])")
     (simp_all add: is_otp_field_def section_field_def)

lemma section_body_without_otp: "section_body R (section_without_otp s) = section_body R s"
proof (cases s)
  case (JObj kvs)
  have t: "py_get (JObj (map_entry (ascii ''fields'') f kvs)) (ascii ''title'') d
        = py_get (JObj kvs) (ascii ''title'') d" for f d
    by (rule py_get_map_entry_other) simp
  show ?thesis
  proof (cases "map_of kvs (ascii ''fields'')")
    case None
    then show ?thesis
      by (simp add: JObj section_without_otp_def section_body_def t)
         (simp add: py_get_def map_of_map_entry)
  next
    case (Some fields)
    show ?thesis
    proof (cases fields)
      case (JArr fs)
      have "for_append (section_field R t) (filter (\<lambda>f. \<not> is_otp_field f) fs)
          = for_append (section_field R t) fs" for t
        by (rule for_append_filter) (simp add: section_field_otp)
      then show ?thesis
        using Some JArr
        by (simp add: JObj section_without_otp_def section_body_def t)
           (simp add: py_get_def map_of_map_entry)
    qed (use Some in \<open>simp_all add: JObj section_without_otp_def section_body_def t\<close>,
         simp_all add: py_get_def map_of_map_entry)
  qed
qed (simp_all add: section_without_otp_def)

lemma sections_block_without_otp:
  "sections_block R (details_without_otp d) = sections_block R d"
proof (cases d)
  case (JObj kvs)
  show ?thesis
  proof (cases "map_of kvs (ascii ''sections'')")
    case None
    then show ?thesis
      by (simp add: JObj details_without_otp_def sections_block_def py_get_def map_of_map_entry)
  next
    case (Some sections)
    show ?thesis
    proof (cases sections)
      case (JArr ss)
      have "for_append (section_body R) (map section_without_otp ss) = for_append (section_body R) ss"
        by (rule for_append_map_cong) (rule section_body_without_otp)
      then show ?thesis
        using Some JArr
        by (simp add: JObj details_without_otp_def sections_block_def py_get_def map_of_map_entry)
    qed (use Some in \<open>simp_all add: JObj details_without_otp_def sections_block_def py_get_def
          map_of_map_entry\<close>)
  qed
qed (simp_all add: details_without_otp_def)

lemma other_blocks_without_otp:
  "notes_plain_block (details_without_otp d) = notes_plain_block d"
  "login_fields_block R (details_without_otp d) = login_fields_block R d"
  "history_block (details_without_otp d) = history_block d"
  by (cases d; simp add: details_without_otp_def notes_plain_block_def login_fields_block_def
        history_block_def py_get_map_entry_other)+

subsection \<open>The traversal\<close>

lemma bind_res_Inr_iff: "bind_res r f = Inr y \<longleftrightarrow> (\<exists>x. r = Inr x \<and> f x = Inr y)"
  by (cases r) simp_all

lemma for_append_Inr_Cons:
  "for_append body (x # xs) = Inr rows \<longleftrightarrow>
     (\<exists>ys zs. body x = Inr ys \<and> for_append body xs = Inr zs \<and> rows = ys @ zs)"
  by (auto split: sum.splits)

lemma for_append_append:
  "for_append body xs = Inr ys \<Longrightarrow> for_append body xs' = Inr zs \<Longrightarrow>
     for_append body (xs @ xs') = Inr (ys @ zs)"
  by (induction xs arbitrary: ys) (auto split: sum.splits)


lemma for_append_nested:
  assumes h: "\<And>x rows. h x = Inr rows \<Longrightarrow> \<exists>items. g x = Inr items \<and> for_append f items = Inr rows"
  shows "for_append h xs = Inr rows \<Longrightarrow>
     \<exists>items. for_append g xs = Inr items \<and> for_append f items = Inr rows"
proof (induction xs arbitrary: rows)
  case Nil
  then show ?case by simp
next
  case (Cons x xs)
  from Cons.prems obtain ys zs where
    x: "h x = Inr ys" and xs: "for_append h xs = Inr zs" and rows: "rows = ys @ zs"
    unfolding for_append_Inr_Cons by blast
  from h [OF x] obtain is1 where is1: "g x = Inr is1" "for_append f is1 = Inr ys"
    by blast
  from Cons.IH [OF xs] obtain is2 where is2: "for_append g xs = Inr is2" "for_append f is2 = Inr zs"
    by blast
  have "for_append f (is1 @ is2) = Inr (ys @ zs)"
    using is1(2) is2(2) by (rule for_append_append)
  with is1 is2 rows show ?case by simp
qed


lemma vault_rows_items:
  "vault_rows R inc vault = Inr rows \<Longrightarrow>
     \<exists>items. vault_items vault = Inr items \<and> for_append (item_rows R inc) items = Inr rows"
  by (auto simp: vault_rows_def vault_items_def bind_res_Inr_iff)

lemma account_rows_items:
  "account_rows R inc account = Inr rows \<Longrightarrow>
     \<exists>items. account_items account = Inr items \<and> for_append (item_rows R inc) items = Inr rows"
  unfolding account_rows_def account_items_def bind_res_Inr_iff
  using for_append_nested [of "vault_rows R inc" vault_items "item_rows R inc", OF vault_rows_items]
  by blast

lemma document_rows_items:
  "convert_1pux_to_csv R data inc = Inr rows \<Longrightarrow>
     \<exists>items. document_items data = Inr items \<and> for_append (item_rows R inc) items = Inr rows"
  unfolding convert_1pux_to_csv_def document_items_def bind_res_Inr_iff
  using for_append_nested [of "account_rows R inc" account_items "item_rows R inc", OF account_rows_items]
  by blast




lemma item_rows_cases:
  "item_rows R inc item = Inr rs \<Longrightarrow>
     (if included inc item then map Inr rs = [convert_item_to_csv_row R item] else rs = [])"
  by (auto simp: item_rows_def included_def bind_res_Inr_iff split: if_splits)

lemma for_append_item_rows:
  "for_append (item_rows R inc) items = Inr rows \<Longrightarrow>
     map (convert_item_to_csv_row R) (filter (included inc) items) = map Inr rows"
proof (induction items arbitrary: rows)
  case Nil
  then show ?case by simp
next
  case (Cons item items)
  from Cons.prems obtain ys zs where
    x: "item_rows R inc item = Inr ys" and xs: "for_append (item_rows R inc) items = Inr zs"
    and rows: "rows = ys @ zs"
    unfolding for_append_Inr_Cons by blast
  show ?case using item_rows_cases [OF x] Cons.IH [OF xs] by (auto simp: rows)
qed

lemma example_item_row:
  "convert_item_to_csv_row R (example_item t s) = Inr (example_row t)"
  by (simp add: example_item_def example_row_def run_builtins run_extract run_notes run_rows)

lemma example_item_rows:
  "item_rows R False (example_item t s)
     = (if s = ascii ''archived'' then Inr [] else Inr [example_row t])"
proof -
  have "py_get (example_item t s) (ascii ''state'') (JStr (ascii ''active'')) = Inr (JStr s)"
    by (simp add: example_item_def py_get_def)
  then show ?thesis by (simp add: item_rows_def example_item_row)
qed

lemma example_rows:
  "convert_1pux_to_csv R example_document False
     = Inr [example_row (ascii ''A''), example_row (ascii ''C''), example_row (ascii ''D'')]"
  by (simp add: example_document_def vault_rows_def account_rows_def convert_1pux_to_csv_def
        example_item_rows py_get_def)

text \<open>
  C6. Whenever the conversion returns, the document's items could be traversed (accounts
  in order, their vaults in order, their items in order), and the rows are the
  conversions of exactly the included items of that sequence, in that order, one row for
  each; so there are at most as many rows as items.
\<close>

theorem rows_in_source_order:
  assumes "convert_1pux_to_csv R data include_archived = Inr rows"
  shows "\<exists>items. document_items data = Inr items
           \<and> map (convert_item_to_csv_row R) (filter (included include_archived) items) = map Inr rows
           \<and> length rows \<le> length items"
proof -
  from document_rows_items [OF assms] obtain items where
    items: "document_items data = Inr items" and
    rows: "for_append (item_rows R include_archived) items = Inr rows"
    by blast
  have m: "map (convert_item_to_csv_row R) (filter (included include_archived) items) = map Inr rows"
    using rows by (rule for_append_item_rows)
  have "length rows = length (filter (included include_archived) items)"
    using arg_cong [OF m, of length] by simp
  then have "length rows \<le> length items" by simp
  with items m show ?thesis by blast
qed

theorem rows_in_source_order_witness:
  "convert_1pux_to_csv repr_plain example_document False
     = Inr [example_row (ascii ''A''), example_row (ascii ''C''), example_row (ascii ''D'')]
   \<and> (\<exists>items. document_items example_document = Inr items
           \<and> map (convert_item_to_csv_row repr_plain) (filter (included False) items)
               = map Inr [example_row (ascii ''A''), example_row (ascii ''C''), example_row (ascii ''D'')]
           \<and> length [example_row (ascii ''A''), example_row (ascii ''C''), example_row (ascii ''D'')]
               \<le> length items)"
  using rows_in_source_order [OF example_rows [of repr_plain]] example_rows [of repr_plain]
  by blast


subsection \<open>One-time-password fields and the Notes column\<close>

lemma otp_example_without:
  "details_without_otp otp_example_details =
     JObj [(ascii ''sections'', JArr [
       JObj [(ascii ''title'', JStr (ascii ''Security'')),
             (ascii ''fields'', JArr [
               JObj [(ascii ''id'', JStr (ascii ''pin'')),
                     (ascii ''title'', JStr (ascii ''PIN'')),
                     (ascii ''value'', JObj [(ascii ''concealed'', JStr (ascii ''1234''))])]])]])]"
  by (simp add: otp_example_details_def otp_example_sections_def details_without_otp_def
        section_without_otp_def map_entry_def is_otp_field_def py_get_def py_startswith_def)

text \<open>
  C7. The Notes value of an item is the Notes value of the same item with every section
  field whose id starts with \<^verbatim>\<open>TOTP_\<close> removed: such a field contributes nothing to Notes,
  whatever its title and value.
\<close>

theorem otp_fields_not_in_notes:
  "build_notes R (details_without_otp details) overview = build_notes R details overview"
  by (simp add: build_notes_def other_blocks_without_otp sections_block_without_otp)

theorem otp_fields_not_in_notes_witness:
  "build_notes repr_plain otp_example_details (JObj [])
     = Inr (section_fields_header @ ascii ''  - Security - PIN: 1234'')
   \<and> build_notes repr_plain (details_without_otp otp_example_details) (JObj [])
     = Inr (section_fields_header @ ascii ''  - Security - PIN: 1234'')
   \<and> extract_otp_auth otp_example_sections = Inr (JStr (ascii ''JBSWY3DPEHPK3PXP''))"
  using otp_fields_not_in_notes [of repr_plain otp_example_details "JObj []"]
  by (simp add: otp_example_without)
     (simp add: otp_example_sections_def run_builtins run_notes run_format run_extract)

subsection \<open>Field values\<close>

text \<open>
  C8. A value whose first recognised key is \<^verbatim>\<open>address\<close>, holding a dict whose street,
  city, state, zip and country are strings where present, formats to the non-empty ones
  of: the street; city, state and zip joined by a comma and a space; the country; joined
  by a comma and a space; and to \<^verbatim>\<open>None\<close> when there is none. The full address of the
  scenario formats to \<^verbatim>\<open>1 Main St, Springfield, IL, 62704, USA\<close>.
\<close>

theorem address_is_composed:
  "(address_shape kvs a \<longrightarrow> format_field_value R (JObj kvs) = Inr (address_text a))
   \<and> format_field_value R
        (JObj [(ascii ''address'',
           JObj [(ascii ''street'', JStr (ascii ''1 Main St'')),
                 (ascii ''city'', JStr (ascii ''Springfield'')),
                 (ascii ''state'', JStr (ascii ''IL'')),
                 (ascii ''zip'', JStr (ascii ''62704'')),
                 (ascii ''country'', JStr (ascii ''USA''))])])
      = Inr (JStr (ascii ''1 Main St, Springfield, IL, 62704, USA''))"
proof -
  have "format_field_value R (JObj kvs) = Inr (address_text a)" if "address_shape kvs a"
  proof -
    from that have ne: "kvs \<noteq> []" by (auto simp: address_shape_def)
    from that have "format_address a = Inr (address_text a)"
      by (intro format_address_text) (simp add: address_shape_def)
    with that ne show ?thesis
      by (simp add: address_shape_def format_field_value_def)
  qed
  moreover have "format_field_value R
        (JObj [(ascii ''address'',
           JObj [(ascii ''street'', JStr (ascii ''1 Main St'')),
                 (ascii ''city'', JStr (ascii ''Springfield'')),
                 (ascii ''state'', JStr (ascii ''IL'')),
                 (ascii ''zip'', JStr (ascii ''62704'')),
                 (ascii ''country'', JStr (ascii ''USA''))])])
      = Inr (JStr (ascii ''1 Main St, Springfield, IL, 62704, USA''))"
    by (simp add: run_format run_builtins)
  ultimately show ?thesis by blast
qed

theorem address_is_composed_witness:
  "address_shape
     [(ascii ''address'', JObj [(ascii ''city'', JStr (ascii ''Paris'')), (ascii ''state'', JStr []),
                               (ascii ''country'', JStr (ascii ''France''))])]
     [(ascii ''city'', JStr (ascii ''Paris'')), (ascii ''state'', JStr []),
      (ascii ''country'', JStr (ascii ''France''))]
   \<and> format_field_value repr_plain
       (JObj [(ascii ''address'', JObj [(ascii ''city'', JStr (ascii ''Paris'')), (ascii ''state'', JStr []),
                               (ascii ''country'', JStr (ascii ''France''))])])
     = Inr (JStr (ascii ''Paris, France''))"
proof -
  have h: "address_shape
     [(ascii ''address'', JObj [(ascii ''city'', JStr (ascii ''Paris'')), (ascii ''state'', JStr []),
                               (ascii ''country'', JStr (ascii ''France''))])]
     [(ascii ''city'', JStr (ascii ''Paris'')), (ascii ''state'', JStr []),
      (ascii ''country'', JStr (ascii ''France''))]"
    by (simp add: address_shape_def textual_def)
  have t: "address_text [(ascii ''city'', JStr (ascii ''Paris'')), (ascii ''state'', JStr []),
      (ascii ''country'', JStr (ascii ''France''))] = JStr (ascii ''Paris, France'')"
    by (simp add: address_text_def address_segments_def text_at_def)
  from address_is_composed [of _ _ repr_plain] h t show ?thesis by simp
qed

text \<open>
  C9, as the program has it. A dict with none of the keys \<^verbatim>\<open>concealed\<close>, \<^verbatim>\<open>string\<close>,
  \<^verbatim>\<open>ssoLogin\<close>, \<^verbatim>\<open>menu\<close>, \<^verbatim>\<open>address\<close> formats to the text of the first key among
  \<^verbatim>\<open>value\<close>, \<^verbatim>\<open>text\<close>, \<^verbatim>\<open>name\<close>, \<^verbatim>\<open>label\<close> that is present with a non-empty value, and
  to \<^verbatim>\<open>None\<close> when there is no such key.
\<close>

theorem first_nonempty_incidental_key:
  "unrecognized_shape kvs \<Longrightarrow> format_field_value R (JObj kvs) = Inr (first_nonempty_text R kvs)"
  by (rule format_unrecognized)

theorem first_nonempty_incidental_key_witness:
  "unrecognized_shape [(ascii ''text'', JStr []), (ascii ''label'', JInt 42)]
   \<and> format_field_value repr_plain (JObj [(ascii ''text'', JStr []), (ascii ''label'', JInt 42)])
       = Inr (JStr (ascii ''42''))"
proof -
  have h: "unrecognized_shape [(ascii ''text'', JStr []), (ascii ''label'', JInt 42)]"
    by (simp add: unrecognized_shape_def)
  have "first_nonempty_text repr_plain [(ascii ''text'', JStr []), (ascii ''label'', JInt 42)]
      = JStr (ascii ''42'')"
    by (simp add: first_nonempty_text_def incidental_keys_def nonempty_at_def dict_get_def str_int_def)
  with h first_nonempty_incidental_key [OF h, of repr_plain] show ?thesis by simp
qed

text \<open>
  C9, as stated, has the first present key win even when its value is empty. With an
  empty \<^verbatim>\<open>value\<close> and a \<^verbatim>\<open>text\<close> of \<^verbatim>\<open>x\<close> the program returns \<^verbatim>\<open>x\<close>, not the
  empty text of \<^verbatim>\<open>value\<close>.
\<close>

theorem first_present_key_counterexample:
  "format_field_value repr_plain
     (JObj [(ascii ''value'', JStr []), (ascii ''text'', JStr (ascii ''x''))])
     = Inr (JStr (ascii ''x''))
   \<and> first_present_text repr_plain [(ascii ''value'', JStr []), (ascii ''text'', JStr (ascii ''x''))]
     = JStr []"
  by (simp add: run_format first_present_text_def present_at_def dict_get_def)

text \<open>
  C3, as the program has it. On a value whose \<^verbatim>\<open>concealed\<close>, \<^verbatim>\<open>string\<close>, \<^verbatim>\<open>menu\<close>,
  \<^verbatim>\<open>provider\<close> and address parts are strings where present, the formatter returns a
  string or \<^verbatim>\<open>None\<close> without raising, and formatting that result again gives the same
  result unless the result is the empty string.
\<close>

theorem formatter_on_shaped_values:
  assumes "shaped_value v"
  shows "\<exists>r. format_field_value R v = Inr r \<and> (r = JNull \<or> is_text r)
             \<and> (r \<noteq> JStr [] \<longrightarrow> format_field_value R r = Inr r)"
proof -
  from format_shaped [OF assms, of R] obtain r where
    r: "format_field_value R v = Inr r" "r = JNull \<or> is_text r"
    by blast
  from r(2) have "r \<noteq> JStr [] \<longrightarrow> format_field_value R r = Inr r"
    by (simp add: format_text_again)
  with r show ?thesis by blast
qed

theorem formatter_on_shaped_values_witness:
  "shaped_value (JObj [(ascii ''concealed'', JStr (ascii ''s3cret''))])
   \<and> format_field_value repr_plain (JObj [(ascii ''concealed'', JStr (ascii ''s3cret''))])
       = Inr (JStr (ascii ''s3cret''))
   \<and> format_field_value repr_plain (JStr (ascii ''s3cret'')) = Inr (JStr (ascii ''s3cret''))"
proof -
  have h: "shaped_value (JObj [(ascii ''concealed'', JStr (ascii ''s3cret''))])"
    by (simp add: shaped_value_def textual_def sub_dict_def)
  from h formatter_on_shaped_values [OF h, of repr_plain] show ?thesis
    by (simp add: run_format)
qed

text \<open>
  C3, as stated, fails three ways: an address whose street is a number raises TypeError;
  a number under \<^verbatim>\<open>concealed\<close> is returned as it is, neither a string nor \<^verbatim>\<open>None\<close>; and
  an empty concealed string is returned as the empty string, which formats to \<^verbatim>\<open>None\<close>.
\<close>

theorem formatter_counterexample:
  "format_field_value repr_plain (JObj [(ascii ''address'', JObj [(ascii ''street'', JInt 5)])])
     = Inl TypeError
   \<and> format_field_value repr_plain (JObj [(ascii ''concealed'', JInt 5)]) = Inr (JInt 5)
   \<and> format_field_value repr_plain (JObj [(ascii ''concealed'', JStr [])]) = Inr (JStr [])
   \<and> format_field_value repr_plain (JStr []) = Inr JNull"
  by (simp add: run_format run_builtins)

subsection \<open>Items that convert\<close>

lemma py_get_JObj [simp]: "py_get (JObj kvs) k d = Inr (dict_get kvs k d)"
  by (simp add: py_get_def dict_get_def)

lemma opt_field_get: "opt_field kvs k P \<Longrightarrow> P d \<Longrightarrow> P (dict_get kvs k d)"
  by (simp add: opt_field_def dict_get_def split: option.splits)

lemma for_append_ok:
  "(\<And>x. x \<in> set xs \<Longrightarrow> \<exists>ys. body x = Inr ys) \<Longrightarrow> \<exists>ys. for_append body xs = Inr ys"
proof (induction xs)
  case Nil
  then show ?case by simp
next
  case (Cons x xs)
  from Cons.prems [of x] obtain ys where "body x = Inr ys" by auto
  moreover from Cons.IH Cons.prems obtain zs where "for_append body xs = Inr zs" by auto
  ultimately show ?case by simp
qed

lemma for_return_ok:
  "(\<And>x. x \<in> set xs \<Longrightarrow> \<exists>r. body x = Inr r) \<Longrightarrow> \<exists>r. for_return body xs = Inr r"
proof (induction xs)
  case Nil
  then show ?case by simp
next
  case (Cons x xs)
  from Cons.prems [of x] obtain r where r: "body x = Inr r" by auto
  from Cons.IH Cons.prems obtain r' where "for_return body xs = Inr r'" by auto
  with r show ?case by (cases r) simp_all
qed

lemma strs_of_ok: "\<forall>t\<in>set ts. is_text t \<Longrightarrow> \<exists>ss. strs_of ts = Inr ss"
proof (induction ts)
  case Nil
  then show ?case by simp
next
  case (Cons t ts)
  then obtain s ss where "t = JStr s" "strs_of ts = Inr ss"
    by (cases t) (auto simp: is_text_def)
  then show ?case by simp
qed

lemma list_ofD: "list_of P v \<Longrightarrow> \<exists>xs. v = JArr xs \<and> (\<forall>x\<in>set xs. P x)"
  by (cases v) (auto simp: list_of_def list_all_iff)

lemma is_dictD: "is_dict v \<Longrightarrow> \<exists>kvs. v = JObj kvs"
  by (cases v) (auto simp: is_dict_def)

lemma is_textD: "is_text v \<Longrightarrow> \<exists>s. v = JStr s"
  by (cases v) (auto simp: is_text_def)

lemma dict_withD: "dict_with P v \<Longrightarrow> \<exists>kvs. v = JObj kvs \<and> P kvs"
  by (cases v) (auto simp: dict_with_def)

lemma list_of_Nil [simp]: "list_of P (JArr [])"
  by (simp add: list_of_def)

lemma is_text_JStr [simp]: "is_text (JStr s)"
  by (simp add: is_text_def)

lemma shaped_value_JStr [simp]: "shaped_value (JStr s)"
  by (simp add: shaped_value_def)

lemma opt_list:
  assumes "opt_field kvs k (list_of P)"
  shows "\<exists>xs. dict_get kvs k (JArr []) = JArr xs \<and> (\<forall>x\<in>set xs. P x)"
proof -
  have "list_of P (dict_get kvs k (JArr []))"
    using assms by (rule opt_field_get) simp
  then show ?thesis by (rule list_ofD)
qed

lemma extract_username_ok:
  assumes "\<forall>x\<in>set xs. is_dict x"
  shows "\<exists>r. extract_username (JArr xs) = Inr r"
proof -
  have "\<exists>r. for_return extract_username_body xs = Inr r"
  proof (rule for_return_ok)
    fix x assume "x \<in> set xs"
    then obtain kvs where "x = JObj kvs" using assms is_dictD by blast
    then show "\<exists>r. extract_username_body x = Inr r"
      by (simp add: extract_username_body_def)
  qed
  then show ?thesis by (auto simp: extract_username_def)
qed

lemma extract_password_ok:
  assumes "\<forall>x\<in>set xs. is_dict x"
  shows "\<exists>r. extract_password (JArr xs) = Inr r"
proof -
  have "\<exists>r. for_return extract_password_body xs = Inr r"
  proof (rule for_return_ok)
    fix x assume "x \<in> set xs"
    then obtain kvs where "x = JObj kvs" using assms is_dictD by blast
    then show "\<exists>r. extract_password_body x = Inr r"
      by (simp add: extract_password_body_def)
  qed
  then show ?thesis by (auto simp: extract_password_def)
qed

lemma shaped_section_fieldD:
  assumes "shaped_section_field f"
  shows "\<exists>kvs s. f = JObj kvs \<and> dict_get kvs (ascii ''id'') (JStr []) = JStr s
           \<and> shaped_value (dict_get kvs (ascii ''value'') (JStr []))"
proof -
  from assms obtain kvs where f: "f = JObj kvs" and
    id: "opt_field kvs (ascii ''id'') is_text" and
    v: "opt_field kvs (ascii ''value'') shaped_value"
    unfolding shaped_section_field_def using dict_withD by blast
  have "is_text (dict_get kvs (ascii ''id'') (JStr []))"
    using id by (rule opt_field_get) simp
  then obtain s where "dict_get kvs (ascii ''id'') (JStr []) = JStr s" using is_textD by blast
  moreover have "shaped_value (dict_get kvs (ascii ''value'') (JStr []))"
    using v by (rule opt_field_get) simp
  ultimately show ?thesis using f by blast
qed

lemma otp_field_ok:
  assumes "shaped_section_field f"
  shows "\<exists>r. otp_field f = Inr r"
proof -
  from shaped_section_fieldD [OF assms] obtain kvs s where
    f: "f = JObj kvs" and s: "dict_get kvs (ascii ''id'') (JStr []) = JStr s"
    by blast
  show ?thesis
    using s
    by (cases "dict_get kvs (ascii ''value'') (JObj [])")
       (simp_all add: otp_field_def f py_startswith_def Let_def)
qed

lemma shaped_sectionD:
  assumes "shaped_section sec"
  shows "\<exists>kvs xs. sec = JObj kvs \<and> dict_get kvs (ascii ''fields'') (JArr []) = JArr xs
            \<and> (\<forall>x\<in>set xs. shaped_section_field x)"
proof -
  from assms obtain kvs where sec: "sec = JObj kvs" and
    fs: "opt_field kvs (ascii ''fields'') (list_of shaped_section_field)"
    unfolding shaped_section_def using dict_withD by blast
  from opt_list [OF fs] sec show ?thesis by blast
qed

lemma otp_section_ok:
  assumes "shaped_section sec"
  shows "\<exists>r. otp_section sec = Inr r"
proof -
  from shaped_sectionD [OF assms] obtain kvs xs where
    sec: "sec = JObj kvs" and g: "dict_get kvs (ascii ''fields'') (JArr []) = JArr xs" and
    xs: "\<forall>x\<in>set xs. shaped_section_field x"
    by blast
  have "\<exists>r. for_return otp_field xs = Inr r"
    by (rule for_return_ok) (simp add: otp_field_ok xs)
  with g show ?thesis by (simp add: otp_section_def sec)
qed

lemma extract_otp_auth_ok:
  assumes "\<forall>x\<in>set xs. shaped_section x"
  shows "\<exists>r. extract_otp_auth (JArr xs) = Inr r"
proof -
  have "\<exists>r. for_return otp_section xs = Inr r"
    by (rule for_return_ok) (simp add: otp_section_ok assms)
  then show ?thesis by (auto simp: extract_otp_auth_def)
qed

lemma extract_url_ok:
  assumes "opt_field kvs (ascii ''urls'') (list_of is_dict)"
  shows "\<exists>r. extract_url (JObj kvs) = Inr r"
proof -
  from opt_list [OF assms] obtain xs where g: "dict_get kvs (ascii ''urls'') (JArr []) = JArr xs"
    and xs: "\<forall>x\<in>set xs. is_dict x"
    by blast
  show ?thesis
  proof (cases xs)
    case Nil
    with g show ?thesis by (simp add: extract_url_def)
  next
    case (Cons u us)
    with xs obtain ukvs where "u = JObj ukvs" using is_dictD by auto
    with Cons g show ?thesis by (simp add: extract_url_def)
  qed
qed

lemma notes_plain_block_ok:
  assumes "opt_field kvs (ascii ''notesPlain'') is_text"
  shows "\<exists>b. notes_plain_block (JObj kvs) = Inr b"
proof -
  have "is_text (dict_get kvs (ascii ''notesPlain'') (JStr []))"
    using assms by (rule opt_field_get) simp
  then obtain s where "dict_get kvs (ascii ''notesPlain'') (JStr []) = JStr s"
    using is_textD by blast
  then show ?thesis by (simp add: notes_plain_block_def py_strip_def)
qed

lemma tags_block_ok:
  assumes "opt_field kvs (ascii ''tags'') (list_of is_text)"
  shows "\<exists>b. tags_block (JObj kvs) = Inr b"
proof -
  from opt_list [OF assms] obtain ts where g: "dict_get kvs (ascii ''tags'') (JArr []) = JArr ts"
    and ts: "\<forall>t\<in>set ts. is_text t"
    by blast
  from strs_of_ok [OF ts] obtain ss where "strs_of ts = Inr ss" by blast
  with g show ?thesis by (simp add: tags_block_def py_join_def)
qed

lemma login_fields_block_ok:
  assumes "opt_field kvs (ascii ''loginFields'') (list_of is_dict)"
  shows "\<exists>b. login_fields_block R (JObj kvs) = Inr b"
proof -
  from opt_list [OF assms] obtain xs where
    g: "dict_get kvs (ascii ''loginFields'') (JArr []) = JArr xs" and xs: "\<forall>x\<in>set xs. is_dict x"
    by blast
  have "\<exists>ys. for_append (other_field R) xs = Inr ys"
  proof (rule for_append_ok)
    fix x assume "x \<in> set xs"
    then obtain f where "x = JObj f" using xs is_dictD by blast
    then show "\<exists>ys. other_field R x = Inr ys" by (simp add: other_field_def)
  qed
  with g show ?thesis by (auto simp: login_fields_block_def)
qed

lemma section_field_ok:
  assumes "shaped_section_field f"
  shows "\<exists>ys. section_field R t f = Inr ys"
proof -
  from shaped_section_fieldD [OF assms] obtain kvs s where
    f: "f = JObj kvs" and s: "dict_get kvs (ascii ''id'') (JStr []) = JStr s" and
    v: "shaped_value (dict_get kvs (ascii ''value'') (JStr []))"
    by blast
  from format_shaped [OF v, of R] obtain r where
    "format_field_value R (dict_get kvs (ascii ''value'') (JStr [])) = Inr r" by blast
  with s show ?thesis by (simp add: section_field_def f py_startswith_def)
qed

lemma section_body_ok:
  assumes "shaped_section sec"
  shows "\<exists>ys. section_body R sec = Inr ys"
proof -
  from shaped_sectionD [OF assms] obtain kvs xs where
    sec: "sec = JObj kvs" and g: "dict_get kvs (ascii ''fields'') (JArr []) = JArr xs" and
    xs: "\<forall>x\<in>set xs. shaped_section_field x"
    by blast
  have "\<exists>ys. for_append (section_field R t) xs = Inr ys" for t
    by (rule for_append_ok) (simp add: section_field_ok xs)
  with g show ?thesis by (simp add: section_body_def sec)
qed

lemma sections_block_ok:
  assumes "opt_field kvs (ascii ''sections'') (list_of shaped_section)"
  shows "\<exists>b. sections_block R (JObj kvs) = Inr b"
proof -
  from opt_list [OF assms] obtain xs where
    g: "dict_get kvs (ascii ''sections'') (JArr []) = JArr xs" and
    xs: "\<forall>x\<in>set xs. shaped_section x"
    by blast
  have "\<exists>ys. for_append (section_body R) xs = Inr ys"
    by (rule for_append_ok) (simp add: section_body_ok xs)
  with g show ?thesis by (auto simp: sections_block_def)
qed

lemma urls_block_ok:
  assumes "opt_field kvs (ascii ''urls'') (list_of is_dict)"
  shows "\<exists>b. urls_block R (JObj kvs) = Inr b"
proof -
  from opt_list [OF assms] obtain xs where g: "dict_get kvs (ascii ''urls'') (JArr []) = JArr xs"
    and xs: "\<forall>x\<in>set xs. is_dict x"
    by blast
  have "\<exists>ys. for_append (other_url R) (drop 1 xs) = Inr ys"
  proof (rule for_append_ok)
    fix x assume "x \<in> set (drop 1 xs)"
    then have "x \<in> set xs" by (rule in_set_dropD)
    then obtain u where "x = JObj u" using xs is_dictD by blast
    then show "\<exists>ys. other_url R x = Inr ys" by (simp add: other_url_def)
  qed
  with g show ?thesis by (auto simp: urls_block_def)
qed

lemma history_block_ok:
  assumes "opt_field kvs (ascii ''passwordHistory'') (list_of (\<lambda>h. True))"
  shows "\<exists>b. history_block (JObj kvs) = Inr b"
proof -
  from opt_list [OF assms] obtain xs where
    "dict_get kvs (ascii ''passwordHistory'') (JArr []) = JArr xs"
    by blast
  then show ?thesis by (simp add: history_block_def)
qed

lemma shaped_detailsD:
  assumes "shaped_details d"
  shows "\<exists>kvs. d = JObj kvs
           \<and> opt_field kvs (ascii ''notesPlain'') is_text
           \<and> opt_field kvs (ascii ''loginFields'') (list_of is_dict)
           \<and> opt_field kvs (ascii ''sections'') (list_of shaped_section)
           \<and> opt_field kvs (ascii ''passwordHistory'') (list_of (\<lambda>h. True))"
  using assms unfolding shaped_details_def by (rule dict_withD)

lemma shaped_overviewD:
  assumes "shaped_overview ov"
  shows "\<exists>kvs. ov = JObj kvs
           \<and> opt_field kvs (ascii ''urls'') (list_of is_dict)
           \<and> opt_field kvs (ascii ''tags'') (list_of is_text)"
  using assms unfolding shaped_overview_def by (rule dict_withD)

lemma build_notes_ok:
  assumes "shaped_details d" and "shaped_overview ov"
  shows "\<exists>notes. build_notes R d ov = Inr notes"
proof -
  from shaped_detailsD [OF assms(1)] obtain dk where d: "d = JObj dk" and
    d1: "opt_field dk (ascii ''notesPlain'') is_text" and
    d2: "opt_field dk (ascii ''loginFields'') (list_of is_dict)" and
    d3: "opt_field dk (ascii ''sections'') (list_of shaped_section)" and
    d4: "opt_field dk (ascii ''passwordHistory'') (list_of (\<lambda>h. True))"
    by blast
  from shaped_overviewD [OF assms(2)] obtain ok where ov: "ov = JObj ok" and
    o1: "opt_field ok (ascii ''urls'') (list_of is_dict)" and
    o2: "opt_field ok (ascii ''tags'') (list_of is_text)"
    by blast
  from notes_plain_block_ok [OF d1] obtain b1 where b1: "notes_plain_block d = Inr b1"
    unfolding d by blast
  from tags_block_ok [OF o2] obtain b2 where b2: "tags_block ov = Inr b2"
    unfolding ov by blast
  from login_fields_block_ok [OF d2] obtain b3 where b3: "login_fields_block R d = Inr b3"
    unfolding d by blast
  from sections_block_ok [OF d3] obtain b4 where b4: "sections_block R d = Inr b4"
    unfolding d by blast
  from urls_block_ok [OF o1] obtain b5 where b5: "urls_block R ov = Inr b5"
    unfolding ov by blast
  from history_block_ok [OF d4] obtain b6 where b6: "history_block d = Inr b6"
    unfolding d by blast
  show ?thesis by (simp add: build_notes_def b1 b2 b3 b4 b5 b6)
qed

lemma shaped_defaults [simp]: "shaped_details (JObj [])" "shaped_overview (JObj [])"
  by (simp_all add: shaped_details_def shaped_overview_def dict_with_def opt_field_def)

lemma convert_shaped_item:
  assumes "shaped_item item"
  shows "\<exists>row. convert_item_to_csv_row R item = Inr row"
proof -
  from assms obtain kvs where item: "item = JObj kvs" and
    o: "opt_field kvs (ascii ''overview'') shaped_overview" and
    d: "opt_field kvs (ascii ''details'') shaped_details"
    unfolding shaped_item_def using dict_withD by blast
  define ov where "ov = dict_get kvs (ascii ''overview'') (JObj [])"
  define de where "de = dict_get kvs (ascii ''details'') (JObj [])"
  have sov: "shaped_overview ov" unfolding ov_def using o by (rule opt_field_get) simp
  have sde: "shaped_details de" unfolding de_def using d by (rule opt_field_get) simp
  from shaped_overviewD [OF sov] obtain ok where ok: "ov = JObj ok" and
    o1: "opt_field ok (ascii ''urls'') (list_of is_dict)"
    by blast
  from shaped_detailsD [OF sde] obtain dk where dk: "de = JObj dk" and
    d2: "opt_field dk (ascii ''loginFields'') (list_of is_dict)" and
    d3: "opt_field dk (ascii ''sections'') (list_of shaped_section)"
    by blast
  from opt_list [OF d2] obtain lf where
    lf: "dict_get dk (ascii ''loginFields'') (JArr []) = JArr lf" "\<forall>x\<in>set lf. is_dict x"
    by blast
  from opt_list [OF d3] obtain ss where
    ss: "dict_get dk (ascii ''sections'') (JArr []) = JArr ss" "\<forall>x\<in>set ss. shaped_section x"
    by blast
  from extract_url_ok [OF o1] obtain url where url: "extract_url ov = Inr url"
    unfolding ok by blast
  from extract_username_ok [OF lf(2)] obtain un where un: "extract_username (JArr lf) = Inr un"
    by blast
  from extract_password_ok [OF lf(2)] obtain pw where pw: "extract_password (JArr lf) = Inr pw"
    by blast
  from extract_otp_auth_ok [OF ss(2)] obtain otp where otp: "extract_otp_auth (JArr ss) = Inr otp"
    by blast
  from build_notes_ok [OF sde sov] obtain nts where nts: "build_notes R de ov = Inr nts"
    by blast
  have o': "py_get item (ascii ''overview'') (JObj []) = Inr ov"
    by (simp add: item ov_def)
  have d': "py_get item (ascii ''details'') (JObj []) = Inr de"
    by (simp add: item de_def)
  have g: "py_get ov (ascii ''title'') (JStr []) = Inr (dict_get ok (ascii ''title'') (JStr []))"
    "py_get de (ascii ''loginFields'') (JArr []) = Inr (JArr lf)"
    "py_get de (ascii ''sections'') (JArr []) = Inr (JArr ss)"
    using lf(1) ss(1) by (simp_all add: ok dk)
  show ?thesis
    unfolding convert_item_to_csv_row_def o' d' g url un pw otp nts bind_res_simps
    by simp
qed

text \<open>
  C4, as the program has it. An item converts to a row without raising when it is a
  dict whose overview and details, where present, are dicts; whose urls, login fields and
  sections are lists of dicts; whose tags are a list of strings; whose notes are a string;
  whose password history is a list; and whose section fields are dicts with a string id
  and a value as in C3. Every one of these keys may be missing.
\<close>

theorem shaped_item_converts:
  assumes "shaped_item item"
  shows "\<exists>row. convert_item_to_csv_row R item = Inr row"
  using assms by (rule convert_shaped_item)

theorem shaped_item_converts_witness:
  "shaped_item login_example_item
   \<and> convert_item_to_csv_row repr_plain login_example_item
       = Inr \<lparr>Title = JStr (ascii ''Example''), URL = JStr (ascii ''https://example.com''),
              Username = JStr (ascii ''alice''), Password = JStr (ascii ''p@ss''),
              Notes = [], OTPAuth = JStr []\<rparr>"
proof -
  have h: "shaped_item login_example_item"
    by (simp add: login_example_item_def shaped_item_def shaped_overview_def shaped_details_def
          dict_with_def opt_field_def list_of_def is_dict_def)
  have "convert_item_to_csv_row repr_plain login_example_item
       = Inr \<lparr>Title = JStr (ascii ''Example''), URL = JStr (ascii ''https://example.com''),
              Username = JStr (ascii ''alice''), Password = JStr (ascii ''p@ss''),
              Notes = [], OTPAuth = JStr []\<rparr>"
    by (simp add: login_example_item_def run_builtins run_extract run_notes run_rows)
  with h shaped_item_converts [OF h, of repr_plain] show ?thesis by simp
qed

text \<open>
  C4, as stated, has no item raise whatever its field types. An item whose login fields
  are null raises TypeError, and with it the whole document does: the well-formed item
  before it yields no row either.
\<close>

theorem null_login_fields_counterexample:
  "convert_item_to_csv_row repr_plain null_fields_item = Inl TypeError
   \<and> convert_1pux_to_csv repr_plain null_fields_document False = Inl TypeError"
proof -
  have bad: "convert_item_to_csv_row repr_plain null_fields_item = Inl TypeError"
    by (simp add: null_fields_item_def run_builtins run_extract run_rows)
  have good: "\<exists>row. convert_item_to_csv_row repr_plain login_example_item = Inr row"
    by (simp add: login_example_item_def run_builtins run_extract run_notes run_rows)
  have st: "py_get login_example_item (ascii ''state'') (JStr (ascii ''active''))
              = Inr (JStr (ascii ''active''))"
    "py_get null_fields_item (ascii ''state'') (JStr (ascii ''active''))
              = Inr (JStr (ascii ''active''))"
    by (simp_all add: login_example_item_def null_fields_item_def py_get_def)
  from good obtain row where "convert_item_to_csv_row repr_plain login_example_item = Inr row"
    by blast
  with bad st have "convert_1pux_to_csv repr_plain null_fields_document False = Inl TypeError"
    by (simp add: null_fields_document_def convert_1pux_to_csv_def account_rows_def
          vault_rows_def item_rows_def dict_get_def)
  with bad show ?thesis by simp
qed

subsection \<open>The archived filter\<close>

lemma included_state: "included inc item \<longleftrightarrow> inc \<or> \<not> state_is_archived item"
proof (cases item)
  case (JObj kvs)
  show ?thesis
    by (cases "map_of kvs (ascii ''state'')")
       (auto simp: JObj included_def state_is_archived_def dict_get_def)
qed (simp_all add: included_def state_is_archived_def py_get_def)

lemma rows_of_included:
  assumes "convert_1pux_to_csv R data inc = Inr rows"
  shows "\<exists>items. document_items data = Inr items
           \<and> map (convert_item_to_csv_row R)
                 (filter (\<lambda>item. inc \<or> \<not> state_is_archived item) items) = map Inr rows"
proof -
  from document_rows_items [OF assms] obtain items where
    items: "document_items data = Inr items" and
    rows: "for_append (item_rows R inc) items = Inr rows"
    by blast
  have "included inc = (\<lambda>item. inc \<or> \<not> state_is_archived item)"
    by (rule ext) (rule included_state)
  with for_append_item_rows [OF rows]
  have "map (convert_item_to_csv_row R)
          (filter (\<lambda>item. inc \<or> \<not> state_is_archived item) items) = map Inr rows"
    by simp
  with items show ?thesis by blast
qed



lemma example_item_rows_flag:
  "item_rows R True (example_item t s) = Inr [example_row t]"
proof -
  have "py_get (example_item t s) (ascii ''state'') (JStr (ascii ''active'')) = Inr (JStr s)"
    by (simp add: example_item_def dict_get_def)
  then show ?thesis by (simp add: item_rows_def example_item_row)
qed


lemma stateless_item_rows:
  "item_rows R inc (stateless_item t) = Inr [example_row t]"
  by (simp add: stateless_item_def example_row_def run_builtins run_extract run_notes run_rows)

lemma stateless_rows:
  "convert_1pux_to_csv R stateless_document False
     = Inr [example_row (ascii ''N''), example_row (ascii ''Z'')]"
  "convert_1pux_to_csv R stateless_document True
     = Inr [example_row (ascii ''N''), example_row (ascii ''B''), example_row (ascii ''Z'')]"
  by (simp_all add: stateless_document_def vault_rows_def account_rows_def
        convert_1pux_to_csv_def stateless_item_rows example_item_rows example_item_rows_flag
        dict_get_def)




text \<open>
  C10, as the program has it. Whenever the conversion returns, with the flag or without,
  its rows are the conversions of the items, less those whose state is exactly the string
  \<^verbatim>\<open>archived\<close> when the flag is off; so every item without a \<^verbatim>\<open>state\<close> key has its row
  among them, whatever the flag.
\<close>

theorem missing_state_is_active:
  assumes "convert_1pux_to_csv R data include_archived = Inr rows"
  shows "\<exists>items. document_items data = Inr items
           \<and> map (convert_item_to_csv_row R)
                 (filter (\<lambda>item. include_archived \<or> \<not> state_is_archived item) items)
               = map Inr rows
           \<and> (\<forall>item\<in>set items. state_missing item \<longrightarrow>
                 (\<exists>row. convert_item_to_csv_row R item = Inr row \<and> row \<in> set rows))"
proof -
  from rows_of_included [OF assms] obtain items where
    items: "document_items data = Inr items" and
    m: "map (convert_item_to_csv_row R)
          (filter (\<lambda>item. include_archived \<or> \<not> state_is_archived item) items) = map Inr rows"
    by blast
  have "\<exists>row. convert_item_to_csv_row R item = Inr row \<and> row \<in> set rows"
    if "item \<in> set items" and "state_missing item" for item
  proof -
    from that(2) have "\<not> state_is_archived item"
      by (cases item) (simp_all add: state_missing_def state_is_archived_def)
    with that(1) have
      "convert_item_to_csv_row R item
         \<in> set (map (convert_item_to_csv_row R)
                  (filter (\<lambda>item. include_archived \<or> \<not> state_is_archived item) items))"
      by simp
    then have "convert_item_to_csv_row R item \<in> set (map Inr rows)"
      by (simp only: m)
    then show ?thesis by auto
  qed
  with items m show ?thesis by blast
qed

theorem missing_state_is_active_witness:
  "state_missing (stateless_item (ascii ''N''))
   \<and> convert_1pux_to_csv repr_plain stateless_document False
       = Inr [example_row (ascii ''N''), example_row (ascii ''Z'')]
   \<and> convert_1pux_to_csv repr_plain stateless_document True
       = Inr [example_row (ascii ''N''), example_row (ascii ''B''), example_row (ascii ''Z'')]
   \<and> (\<exists>items. document_items stateless_document = Inr items
         \<and> map (convert_item_to_csv_row repr_plain)
               (filter (\<lambda>item. False \<or> \<not> state_is_archived item) items)
             = map Inr [example_row (ascii ''N''), example_row (ascii ''Z'')]
         \<and> (\<forall>item\<in>set items. state_missing item \<longrightarrow>
               (\<exists>row. convert_item_to_csv_row repr_plain item = Inr row
                  \<and> row \<in> set [example_row (ascii ''N''), example_row (ascii ''Z'')])))
   \<and> (\<exists>items. document_items stateless_document = Inr items
         \<and> map (convert_item_to_csv_row repr_plain)
               (filter (\<lambda>item. True \<or> \<not> state_is_archived item) items)
             = map Inr [example_row (ascii ''N''), example_row (ascii ''B''),
                        example_row (ascii ''Z'')]
         \<and> (\<forall>item\<in>set items. state_missing item \<longrightarrow>
               (\<exists>row. convert_item_to_csv_row repr_plain item = Inr row
                  \<and> row \<in> set [example_row (ascii ''N''), example_row (ascii ''B''),
                                 example_row (ascii ''Z'')])))"
proof -
  have m: "state_missing (stateless_item (ascii ''N''))"
    by (simp add: state_missing_def stateless_item_def)
  from m stateless_rows [of repr_plain]
    missing_state_is_active [OF stateless_rows(1) [of repr_plain]]
    missing_state_is_active [OF stateless_rows(2) [of repr_plain]]
  show ?thesis by blast
qed

text \<open>
  C10, as stated, has an item without a \<^verbatim>\<open>state\<close> key always emit a row. An item
  without state whose login fields are null raises TypeError under either flag, and the
  conversion emits no row.
\<close>

theorem stateless_null_item_counterexample:
  "state_missing null_fields_item
   \<and> convert_1pux_to_csv repr_plain stateless_null_document False = Inl TypeError
   \<and> convert_1pux_to_csv repr_plain stateless_null_document True = Inl TypeError"
  by (simp add: state_missing_def null_fields_item_def stateless_null_document_def
        run_builtins run_extract run_rows)

subsection \<open>Where the program departs from its description\<close>

text \<open>
  C1. Notes that consist of white space only pass the test \<^verbatim>\<open>if notes_plain:\<close> and are
  stripped afterwards, so an empty block is appended: with one tag, the Notes value
  starts with the delimiter.
\<close>

theorem whitespace_notes_leave_a_delimiter:
  "build_notes repr_plain
     (JObj [(ascii ''notesPlain'', JStr (ascii '' ''))])
     (JObj [(ascii ''tags'', JArr [JStr (ascii ''a'')])])
   = Inr (delimiter @ tags_label @ ascii ''a'')"
  by (simp add: run_builtins run_notes)

text \<open>
  C2. A field with a \<^verbatim>\<open>TOTP_\<close> id whose value is the empty string ends the scan: the
  seed of the field after it is not returned.
\<close>

theorem empty_string_seed_ends_the_scan:
  "extract_otp_auth
     (JArr [JObj [(ascii ''fields'',
        JArr [JObj [(ascii ''id'', JStr (ascii ''TOTP_1'')), (ascii ''value'', JStr [])],
              JObj [(ascii ''id'', JStr (ascii ''TOTP_2'')),
                    (ascii ''value'', JObj [(ascii ''totp'', JStr (ascii ''SEED''))])]])]])
   = Inr (JStr [])"
  by (simp add: run_builtins run_extract)

end
